theory Spec2Isabelle
  imports Main
begin

section \<open>JavaScript values\<close>

text \<open>
  The component in \<^verbatim>\<open>src/main.ts\<close> receives its configuration and the shared context
  (\<^verbatim>\<open>hass\<close>) as untyped data (\<^verbatim>\<open>any\<close>), and it branches on JavaScript truthiness, on
  \<^verbatim>\<open>=== undefined\<close> and on \<^verbatim>\<open>Array.isArray\<close>.  The values are therefore modelled as they
  are at run time.  Numbers are the integers (fractions, NaN and infinities are left out), and
  how a number is written as a string is left to the environment (\<open>number_to_string\<close> below).
  An object is its list of own properties, the first entry for a key being the one read.
\<close>

datatype jsval =
    Undefined
  | Null
  | JBool bool
  | JNum int
  | JStr string
  | JArr "jsval list"
  | JObj "(string \<times> jsval) list"

text \<open>Truthiness, as read by \<^verbatim>\<open>if (v)\<close>, \<^verbatim>\<open>!v\<close>, \<^verbatim>\<open>a || b\<close> and \<^verbatim>\<open>a && b\<close>.\<close>

fun truthy :: "jsval \<Rightarrow> bool" where
  "truthy Undefined = False"
| "truthy Null = False"
| "truthy (JBool b) = b"
| "truthy (JNum n) = (n \<noteq> 0)"
| "truthy (JStr s) = (s \<noteq> [])"
| "truthy (JArr xs) = True"
| "truthy (JObj kvs) = True"

text \<open>\<^verbatim>\<open>a || b\<close>\<close>

definition js_or :: "jsval \<Rightarrow> jsval \<Rightarrow> jsval" where
  "js_or a b = (if truthy a then a else b)"

text \<open>\<^verbatim>\<open>v === undefined || v === null\<close>, the test behind \<^verbatim>\<open>??\<close> and \<^verbatim>\<open>?.\<close>; reading a
  property of such a value throws a TypeError.\<close>

fun nullish :: "jsval \<Rightarrow> bool" where
  "nullish Undefined = True"
| "nullish Null = True"
| "nullish v = False"

text \<open>\<^verbatim>\<open>a ?? b\<close>\<close>

definition js_nc :: "jsval \<Rightarrow> jsval \<Rightarrow> jsval" where
  "js_nc a b = (if nullish a then b else a)"

text \<open>\<^verbatim>\<open>Array.isArray(v)\<close>\<close>

fun isArray :: "jsval \<Rightarrow> bool" where
  "isArray (JArr xs) = True"
| "isArray v = False"

text \<open>Decimal numerals: the property keys of array indices.\<close>

fun dec_nat :: "nat \<Rightarrow> string" where
  "dec_nat n =
     (if n < 10 then [char_of (48 + n)]
      else dec_nat (n div 10) @ [char_of (48 + n mod 10)])"

declare dec_nat.simps [simp del]

fun join_comma :: "string list \<Rightarrow> string" where
  "join_comma [] = []"
| "join_comma [s] = s"
| "join_comma (s # t # ts) = s @ CHR '','' # join_comma (t # ts)"

text \<open>\<^verbatim>\<open>String(v)\<close>: the conversion a value undergoes when it is used as a property key, as
  \<^verbatim>\<open>head.entity\<close> is in \<^verbatim>\<open>this.hass.states[head.entity]\<close>.  The first argument is the
  conversion of numbers (\<^verbatim>\<open>Number.prototype.toString\<close>), which writes large numbers in
  exponent form and is not fixed here: every statement below holds whatever it is.\<close>

fun to_str :: "(int \<Rightarrow> string) \<Rightarrow> jsval \<Rightarrow> string" where
  "to_str nts Undefined = ''undefined''"
| "to_str nts Null = ''null''"
| "to_str nts (JBool b) = (if b then ''true'' else ''false'')"
| "to_str nts (JNum n) = nts n"
| "to_str nts (JStr s) = s"
| "to_str nts (JArr xs) = join_comma (map (\<lambda>x. if nullish x then [] else to_str nts x) xs)"
| "to_str nts (JObj kvs) = ''[object Object]''"

text \<open>The own enumerable properties of a value: what \<^verbatim>\<open>{...v}\<close> copies and what
  \<^verbatim>\<open>v[k]\<close> finds.  Properties inherited from a prototype (methods, \<^verbatim>\<open>length\<close>) are not
  modelled; the program reads only the keys \<^verbatim>\<open>entity\<close>, \<^verbatim>\<open>tap_action\<close>, \<^verbatim>\<open>states\<close>,
  \<^verbatim>\<open>attributes\<close>, \<^verbatim>\<open>entity_id\<close>, \<^verbatim>\<open>state_color\<close>, \<^verbatim>\<open>_config\<close>, \<^verbatim>\<open>config\<close> and, in the state
  table, an entity id.\<close>

fun own_props :: "jsval \<Rightarrow> (string \<times> jsval) list" where
  "own_props (JObj kvs) = kvs"
| "own_props (JArr xs) = zip (map dec_nat [0..<length xs]) xs"
| "own_props (JStr s) = zip (map dec_nat [0..<length s]) (map (\<lambda>c. JStr [c]) s)"
| "own_props v = []"

text \<open>\<^verbatim>\<open>v[k]\<close> and \<^verbatim>\<open>v.k\<close> on a value that is neither undefined nor null.\<close>

definition get_prop :: "jsval \<Rightarrow> string \<Rightarrow> jsval" where
  "get_prop v k = (case map_of (own_props v) k of Some x \<Rightarrow> x | None \<Rightarrow> Undefined)"

text \<open>\<^verbatim>\<open>v?.k\<close>\<close>

definition opt_prop :: "jsval \<Rightarrow> string \<Rightarrow> jsval" where
  "opt_prop v k = (if nullish v then Undefined else get_prop v k)"

text \<open>\<^verbatim>\<open>function ensureObject(config)\<close>, lines 34-37.\<close>

definition ensureObject :: "jsval \<Rightarrow> jsval" where
  "ensureObject config =
     (if config = Undefined then Undefined
      else (case config of JStr s \<Rightarrow> JObj [(''entity'', JStr s)] | _ \<Rightarrow> config))"


section \<open>Configuration, row handles and component state\<close>

text \<open>\<^verbatim>\<open>interface FoldEntityRowConfig\<close>, lines 13-25.  A field that is absent reads as
  \<^verbatim>\<open>undefined\<close>: \<open>Undefined\<close> for the fields typed \<^verbatim>\<open>any\<close>, \<open>None\<close> for the typed ones.
  The fields \<^verbatim>\<open>items\<close> and \<^verbatim>\<open>entities\<close> are kept untyped because the loader itself tests
  whether they are arrays.  (\<^verbatim>\<open>type\<close> is read by the host only.)\<close>

record fold_config =
  cfg_open :: "bool option"
  entity :: jsval
  head :: jsval
  items :: jsval
  entities :: jsval
  group_config :: jsval
  padding :: "int option"
  clickable :: "bool option"
  mute :: "bool option"
  state_color :: "bool option"

text \<open>\<^verbatim>\<open>Object.assign({}, DEFAULT_CONFIG, config)\<close>, lines 27-32 and 51: the defaults
  \<^verbatim>\<open>open: false\<close>, \<^verbatim>\<open>padding: 24\<close>, \<^verbatim>\<open>group_config: {}\<close> fill the absent fields.\<close>

definition assign_defaults :: "fold_config \<Rightarrow> fold_config" where
  "assign_defaults c =
     c\<lparr> cfg_open := Some (case cfg_open c of Some b \<Rightarrow> b | None \<Rightarrow> False),
        padding := Some (case padding c of Some p \<Rightarrow> p | None \<Rightarrow> 24),
        group_config := (if group_config c = Undefined then JObj [] else group_config c) \<rparr>"

text \<open>What \<^verbatim>\<open>_load_head\<close> does to a clickable header once it exists (lines 76-85): either the
  nested generic row gets the \<^verbatim>\<open>fire-dom-event\<close> tap action, or an action listener is bound
  to the header itself.\<close>

datatype binding = Unbound | TapActionFoldRow | ActionListener

text \<open>A row handle (\<^verbatim>\<open>LovelaceElement\<close>): the element returned by the host's
  \<^verbatim>\<open>createRowElement\<close>.  \<open>el_id\<close> is its identity (the number of factory calls made before
  it was created), \<open>el_config\<close> the configuration the factory was called with, \<open>el_hass\<close>
  its context slot, and \<open>el_hass_sets\<close> counts the assignments to that slot.\<close>

record element =
  el_id :: nat
  el_config :: "(string \<times> jsval) list"
  el_hass :: jsval
  el_hass_sets :: nat
  tabIndex :: "int option"
  role :: "string option"
  ariaLabel :: "string option"
  ariaChecked :: "string option"
  binding :: binding

text \<open>The inline style of the \<^verbatim>\<open>.container\<close> element.\<close>

datatype css_height = Unset | Auto | Px nat

record container_style =
  style_overflow :: "string option"
  style_height :: css_height

text \<open>Errors thrown by the component: \<^verbatim>\<open>throw new Error(msg)\<close>, or the TypeError of reading
  or writing a property of \<^verbatim>\<open>undefined\<close> or \<^verbatim>\<open>null\<close>.\<close>

datatype error = Error string | TypeError

text \<open>The state of the promise an \<^verbatim>\<open>async\<close> method returns, once the event loop has run
  dry: fulfilled with a value, rejected with an error, or still suspended at an \<^verbatim>\<open>await\<close>.\<close>

datatype 'a outcome = Fulfilled 'a | Rejected error | Suspended

text \<open>The suspended remainder of \<^verbatim>\<open>_load_rows\<close> at line 106, which \<^verbatim>\<open>_hassResolve\<close> resumes:
  who awaits the loader (a direct call, or \<^verbatim>\<open>toggle\<close> at line 190) and the local \<^verbatim>\<open>head\<close>
  it captured.\<close>

datatype caller = Direct | ViaToggle

datatype waiter = Waiter caller jsval

text \<open>What the component takes from outside: the enclosing card found by \<^verbatim>\<open>findParentCard\<close>
  (\<open>Undefined\<close> when there is none), whether \<^verbatim>\<open>selectTree\<close> finds an element with an
  \<^verbatim>\<open>actionHandler\<close> inside the header, and the string the JavaScript engine writes for a
  number.\<close>

record env =
  parentCard :: jsval
  header_action_handler :: bool
  number_to_string :: "int \<Rightarrow> string"

text \<open>\<^verbatim>\<open>class FoldEntityRow\<close>, lines 39-48, once it is rendered (the \<^verbatim>\<open>.container\<close> exists).  \<open>head_row\<close> is the
  settled value of the promise \<^verbatim>\<open>this.head\<close> (\<open>None\<close> while the field is undefined): the
  header is taken to have been created before the next event reaches the component, so a header
  that is still pending when \<^verbatim>\<open>updated\<close> runs is not described.  Further,
  \<open>factory_calls\<close> counts the calls of \<^verbatim>\<open>createRowElement\<close>.\<close>

record fold_entity_row =
  open_state :: "bool option"
  head_row :: "element option"
  rows :: "element list"
  hass :: jsval
  showContent :: "bool option"
  config :: fold_config
  hassResolve :: "waiter option"
  container :: container_style
  factory_calls :: nat

section \<open>Row creation\<close>

text \<open>\<^verbatim>\<open>_createRow(config, head)\<close>, lines 125-145.  The effective configuration is
  \<^verbatim>\<open>{state_color, ...group_config, ...config}\<close>, later entries winning, so the list holds
  them in reverse.  The host's factory is taken to return a handle for every configuration.  The
  styling hook \<^verbatim>\<open>applyStyle\<close> touches only style state of the host, which nothing here
  reads.\<close>

definition effective_state_color :: "env \<Rightarrow> fold_config \<Rightarrow> jsval" where
  "effective_state_color e c =
     js_nc (js_nc (case state_color c of Some b \<Rightarrow> JBool b | None \<Rightarrow> Undefined)
                  (opt_prop (opt_prop (parentCard e) ''_config'') ''state_color''))
           (opt_prop (opt_prop (parentCard e) ''config'') ''state_color'')"

definition row_config :: "env \<Rightarrow> fold_config \<Rightarrow> bool \<Rightarrow> jsval \<Rightarrow> (string \<times> jsval) list" where
  "row_config e c is_head d =
     own_props d @ (if is_head then [] else own_props (group_config c))
       @ [(''state_color'', effective_state_color e c)]"

definition createRow :: "env \<Rightarrow> fold_entity_row \<Rightarrow> jsval \<Rightarrow> bool \<Rightarrow> element \<times> fold_entity_row" where
  "createRow e s d is_head =
     (\<lparr> el_id = factory_calls s,
        el_config = row_config e (config s) is_head d,
        el_hass = (if truthy (hass s) then hass s else Undefined),
        el_hass_sets = (if truthy (hass s) then 1 else 0),
        tabIndex = None, role = None, ariaLabel = None, ariaChecked = None,
        binding = Unbound \<rparr>,
      s\<lparr> factory_calls := Suc (factory_calls s) \<rparr>)"

text \<open>\<^verbatim>\<open>if (this._config.clickable)\<close>, the only way the field is read after
  \<^verbatim>\<open>_load_head\<close> has resolved it (lines 73, 206 and 277-280).\<close>

definition is_clickable :: "fold_config \<Rightarrow> bool" where
  "is_clickable c = (clickable c = Some True)"

text \<open>Lines 89-90 and 208-209.\<close>

definition aria :: "bool option \<Rightarrow> element \<Rightarrow> element" where
  "aria opn h =
     h\<lparr> ariaLabel := Some (if opn = Some True then ''Toggle fold closed'' else ''Toggle fold open''),
        ariaChecked := Some (if opn = Some True then ''true'' else ''false'') \<rparr>"

section \<open>The header\<close>

text \<open>\<^verbatim>\<open>_load_head\<close>, lines 60-93.\<close>

definition load_head :: "env \<Rightarrow> fold_entity_row \<Rightarrow> unit outcome \<times> fold_entity_row" where
  "load_head e s =
     (let c = config s; hdr = ensureObject (js_or (entity c) (head c)) in
      if \<not> truthy hdr then (Rejected (Error ''No fold head specified''), s)
      else
        let c' = (if clickable c = None
                     \<and> get_prop hdr ''entity'' = Undefined \<and> get_prop hdr ''tap_action'' = Undefined
                  then c\<lparr> clickable := Some True \<rparr> else c);
            (el, s1) = createRow e (s\<lparr> config := c' \<rparr>) hdr True;
            el' = (if is_clickable c'
                   then aria (open_state s1)
                          (el\<lparr> binding := (if header_action_handler e then TapActionFoldRow
                                              else ActionListener),
                               tabIndex := Some 0, role := Some ''switch'' \<rparr>)
                   else el)
        in (Fulfilled (), s1\<lparr> head_row := Some el' \<rparr>))"

section \<open>The child rows\<close>

text \<open>\<^verbatim>\<open>this.hass.states[head.entity]?.attributes?.entity_id\<close>, line 109.\<close>

definition group_members :: "env \<Rightarrow> jsval \<Rightarrow> jsval \<Rightarrow> error + jsval" where
  "group_members e h key =
     (if nullish h then Inl TypeError
      else let st = get_prop h ''states'' in
        if nullish st then Inl TypeError
        else Inr (opt_prop (opt_prop (get_prop st (to_str (number_to_string e) key)) ''attributes'') ''entity_id''))"

text \<open>\<^verbatim>\<open>Promise.all(items.map(async (i) => await this._createRow(ensureObject(i))))\<close>, lines
  118-122.  Every item gets a slot at its own index.  The calls complete in the order the
  schedule gives (an index that is out of range or already settled does nothing), each
  completion writes its handle into its slot, and the promise is fulfilled with the slots, in
  index order, once all of them are filled.\<close>

fun run_calls :: "env \<Rightarrow> jsval list \<Rightarrow> nat list \<Rightarrow> element option list \<times> fold_entity_row
                    \<Rightarrow> element option list \<times> fold_entity_row" where
  "run_calls e its [] acc = acc"
| "run_calls e its (i # sched) (slots, s) =
     (if i < length its \<and> slots ! i = None
      then (let (el, s') = createRow e s (ensureObject (its ! i)) False
            in run_calls e its sched (slots[i := Some el], s'))
      else run_calls e its sched (slots, s))"

definition create_rows :: "env \<Rightarrow> nat list \<Rightarrow> fold_entity_row \<Rightarrow> jsval list
                             \<Rightarrow> (element list option) outcome \<times> fold_entity_row" where
  "create_rows e sched s its =
     (let (slots, s') = run_calls e its sched (replicate (length its) None, s) in
      if list_all (\<lambda>x. x \<noteq> None) slots
      then (Fulfilled None, s'\<lparr> rows := map the slots \<rparr>)
      else (Suspended, s'))"

text \<open>Lines 111-122.\<close>

definition finish_rows :: "env \<Rightarrow> nat list \<Rightarrow> fold_entity_row \<Rightarrow> jsval
                             \<Rightarrow> (element list option) outcome \<times> fold_entity_row" where
  "finish_rows e sched s its =
     (if its = Undefined then (Rejected (Error ''No entities specified.''), s)
      else if \<not> truthy its \<or> \<not> isArray its then (Rejected (Error ''Entities must be a list.''), s)
      else (case its of JArr xs \<Rightarrow> create_rows e sched s xs | _ \<Rightarrow> (Rejected TypeError, s)))"

text \<open>Lines 108-122: what runs after the wait for the context, or at once when the context is
  there.\<close>

definition derive_rows :: "env \<Rightarrow> nat list \<Rightarrow> fold_entity_row \<Rightarrow> jsval
                             \<Rightarrow> (element list option) outcome \<times> fold_entity_row" where
  "derive_rows e sched s hdr =
     (let s1 = s\<lparr> hassResolve := None \<rparr> in
      case group_members e (hass s1) (get_prop hdr ''entity'') of
        Inl err \<Rightarrow> (Rejected err, s1)
      | Inr its \<Rightarrow> finish_rows e sched s1 its)"

text \<open>\<^verbatim>\<open>_load_rows\<close>, lines 95-123.  The early return gives \<^verbatim>\<open>this.rows\<close>; a run to the end
  of the body gives \<^verbatim>\<open>undefined\<close> (\<open>None\<close>).\<close>

definition load_rows :: "env \<Rightarrow> nat list \<Rightarrow> caller \<Rightarrow> fold_entity_row
                           \<Rightarrow> (element list option) outcome \<times> fold_entity_row" where
  "load_rows e sched k s =
     (if rows s \<noteq> [] then (Fulfilled (Some (rows s)), s)
      else
        let c = config s;
            hdr = ensureObject (js_or (entity c) (head c));
            its = js_or (entities c) (items c)
        in if nullish hdr then (Rejected TypeError, s)
           else if truthy (get_prop hdr ''entity'') \<and> its = Undefined
           then (if hass s = Undefined
                 then (Suspended, s\<lparr> hassResolve := Some (Waiter k hdr) \<rparr>)
                 else derive_rows e sched s hdr)
           else finish_rows e sched s its)"

section \<open>Toggle, context propagation and configuration\<close>

text \<open>Lines 194-210 of \<^verbatim>\<open>toggle\<close>; \<open>sh\<close> is the measured \<^verbatim>\<open>scrollHeight\<close>.  The zero-delay
  timer of lines 198-200 has run by the time the event loop is dry.\<close>

definition toggle_finish :: "bool \<Rightarrow> nat \<Rightarrow> fold_entity_row \<Rightarrow> unit outcome \<times> fold_entity_row" where
  "toggle_finish newOpen sh s =
     (let s1 = s\<lparr> container := (container s)\<lparr> style_height := (if sh \<noteq> 0 then Px sh else Auto) \<rparr> \<rparr>;
          s2 = s1\<lparr> open_state := Some newOpen \<rparr>;
          s3 = (if newOpen then s2
                else s2\<lparr> container := (container s2)\<lparr> style_height := Px 0 \<rparr> \<rparr>)
      in if is_clickable (config s3)
         then (case head_row s3 of
                 None \<Rightarrow> (Rejected TypeError, s3)
               | Some h \<Rightarrow> (Fulfilled (), s3\<lparr> head_row := Some (aria (open_state s3) h) \<rparr>))
         else (Fulfilled (), s3))"



text \<open>\<^verbatim>\<open>e.hass = this.hass\<close>\<close>

definition push_hass :: "jsval \<Rightarrow> element \<Rightarrow> element" where
  "push_hass h el = el\<lparr> el_hass := h, el_hass_sets := Suc (el_hass_sets el) \<rparr>"

text \<open>\<^verbatim>\<open>updated(changedProperties)\<close>, lines 213-224, with the keys of \<^verbatim>\<open>changedProperties\<close>.
  The result names the waiter whose resolver was called, if any.  (The \<^verbatim>\<open>open\<close> branch
  refreshes the host's styling only.)\<close>

definition updated :: "string list \<Rightarrow> fold_entity_row \<Rightarrow> waiter option \<times> fold_entity_row" where
  "updated changed s =
     (if ''hass'' \<in> set changed
      then (hassResolve s,
            s\<lparr> rows := map (push_hass (hass s)) (rows s),
               head_row := map_option (push_hass (hass s)) (head_row s) \<rparr>)
      else (None, s))"

text \<open>The resumed remainder of a suspended \<^verbatim>\<open>_load_rows\<close> (from line 108 on), followed by
  the remainder of \<^verbatim>\<open>toggle\<close> when that is what awaited it.\<close>

definition resume :: "env \<Rightarrow> nat list \<Rightarrow> nat \<Rightarrow> waiter \<Rightarrow> fold_entity_row
                        \<Rightarrow> unit outcome \<times> fold_entity_row" where
  "resume e sched sh w s =
     (case w of Waiter k hdr \<Rightarrow>
        (case derive_rows e sched s hdr of
           (Fulfilled r, s1) \<Rightarrow>
             (case k of Direct \<Rightarrow> (Fulfilled (), s1) | ViaToggle \<Rightarrow> toggle_finish True sh s1)
         | (Rejected err, s1) \<Rightarrow> (Rejected err, s1)
         | (Suspended, s1) \<Rightarrow> (Suspended, s1)))"

text \<open>An update cycle of the element: \<^verbatim>\<open>updated\<close> with the properties that changed, and then
  the loader whose waiter it has resolved.  The first component is the outcome of that loader,
  if one was waiting.\<close>

definition update_cycle :: "env \<Rightarrow> nat list \<Rightarrow> nat \<Rightarrow> string list \<Rightarrow> fold_entity_row
                              \<Rightarrow> (unit outcome) option \<times> fold_entity_row" where
  "update_cycle e sched sh changed s =
     (case updated changed s of
        (None, s1) \<Rightarrow> (None, s1)
      | (Some w, s1) \<Rightarrow> (case resume e sched sh w s1 of (out, s2) \<Rightarrow> (Some out, s2)))"

text \<open>\<^verbatim>\<open>@property() hass\<close>, line 44.  The property is reactive, and its setter is Lit's: it
  stores the value and, unless the value is the one already held (\<^verbatim>\<open>Object.is\<close>), records
  \<^verbatim>\<open>hass\<close> as changed and requests an update.  Lit runs a requested update once, after the
  running task, however many assignments requested it.  What the host assigns is either the
  very object the property holds, or another value; values that are not objects are the same
  when they are equal.\<close>

datatype assigned = SameObject | Other jsval

fun primitive :: "jsval \<Rightarrow> bool" where
  "primitive (JArr xs) = False"
| "primitive (JObj kvs) = False"
| "primitive v = True"

text \<open>The setter: the new state, and whether an update is requested.\<close>

fun set_hass :: "assigned \<Rightarrow> fold_entity_row \<Rightarrow> bool \<times> fold_entity_row" where
  "set_hass SameObject s = (False, s)"
| "set_hass (Other h) s = (\<not> (primitive h \<and> h = hass s), s\<lparr> hass := h \<rparr>)"

text \<open>The assignments of one task, in order.\<close>

fun set_hass_all :: "assigned list \<Rightarrow> bool \<times> fold_entity_row \<Rightarrow> bool \<times> fold_entity_row" where
  "set_hass_all [] acc = acc"
| "set_hass_all (a # asgs) (requested, s) =
     (case set_hass a s of (r, s') \<Rightarrow> set_hass_all asgs (requested \<or> r, s'))"

text \<open>The assignments of one task and the update cycle they request, if any.\<close>

definition host_assigns :: "env \<Rightarrow> nat list \<Rightarrow> nat \<Rightarrow> assigned list \<Rightarrow> fold_entity_row
                              \<Rightarrow> (unit outcome) option \<times> fold_entity_row" where
  "host_assigns e sched sh asgs s =
     (case set_hass_all asgs (False, s) of
        (requested, s1) \<Rightarrow>
          if requested then update_cycle e sched sh [''hass''] s1 else (None, s1))"

text \<open>A single assignment of a value \<open>h\<close> other than the one held, in a task of its own.\<close>

definition assign_hass :: "env \<Rightarrow> nat list \<Rightarrow> nat \<Rightarrow> jsval \<Rightarrow> fold_entity_row
                             \<Rightarrow> (unit outcome) option \<times> fold_entity_row" where
  "assign_hass e sched sh h s = host_assigns e sched sh [Other h] s"

text \<open>\<^verbatim>\<open>setConfig\<close>, lines 50-58.  The results are the outcome of \<^verbatim>\<open>_load_head\<close>, the outcome
  of \<^verbatim>\<open>_load_rows\<close> when line 57 calls it (\<open>None\<close> when it does not), and the new state.
  Neither promise is awaited, so a rejection does not stop \<^verbatim>\<open>setConfig\<close>.\<close>

definition setConfig :: "env \<Rightarrow> nat list \<Rightarrow> fold_config \<Rightarrow> fold_entity_row
     \<Rightarrow> unit outcome \<times> ((element list option) outcome) option \<times> fold_entity_row" where
  "setConfig e sched cfg s =
     (let c = assign_defaults cfg;
          opn = Some (case open_state s of Some b \<Rightarrow> b
                      | None \<Rightarrow> (case cfg_open c of Some b \<Rightarrow> b | None \<Rightarrow> False));
          s1 = s\<lparr> config := c, open_state := opn, showContent := opn \<rparr>;
          (ho, s2) = load_head e s1;
          s3 = s2\<lparr> rows := [] \<rparr>
      in if cfg_open (config s3) = Some True
         then (case load_rows e sched Direct s3 of (ro, s4) \<Rightarrow> (ho, Some ro, s4))
         else (ho, None, s3))"

text \<open>A component that has just been constructed: no field assigned yet.\<close>

definition fresh :: "fold_entity_row" where
  "fresh =
     \<lparr> open_state = None, head_row = None, rows = [], hass = Undefined, showContent = None,
       config = \<lparr> cfg_open = None, entity = Undefined, head = Undefined, items = Undefined,
                  entities = Undefined, group_config = Undefined, padding = None,
                  clickable = None, mute = None, state_color = None \<rparr>,
       hassResolve = None,
       container = \<lparr> style_overflow = None, style_height = Unset \<rparr>,
       factory_calls = 0 \<rparr>"

section \<open>Notions used in the statements\<close>

text \<open>The normalized head descriptor of lines 61 and 97, and the descriptor-to-configuration
  step of a child row (line 120 with lines 132-136).\<close>

abbreviation head_descriptor :: "fold_config \<Rightarrow> jsval" where
  "head_descriptor c \<equiv> ensureObject (js_or (entity c) (head c))"

abbreviation child_config :: "env \<Rightarrow> fold_config \<Rightarrow> jsval \<Rightarrow> (string \<times> jsval) list" where
  "child_config e c d \<equiv> row_config e c False (ensureObject d)"

text \<open>A schedule completes \<open>n\<close> concurrent calls when each of them occurs in it.\<close>

definition completes :: "nat list \<Rightarrow> nat \<Rightarrow> bool" where
  "completes sched n = list_all (\<lambda>i. i \<in> set sched) [0..<n]"

text \<open>The invariant of the slots of \<open>run_calls\<close>: a filled slot holds a handle made from the
  item at the same index.\<close>

definition slots_ok :: "env \<Rightarrow> fold_config \<Rightarrow> jsval list \<Rightarrow> element option list \<Rightarrow> bool" where
  "slots_ok e c its slots \<longleftrightarrow>
     length slots = length its \<and>
     (\<forall>i<length its. \<forall>el. slots ! i = Some el \<longrightarrow> el_config el = child_config e c (its ! i))"

text \<open>Lines 51-53 of \<^verbatim>\<open>setConfig\<close>: the state in which \<^verbatim>\<open>_load_head\<close> is called.\<close>

definition configured :: "fold_config \<Rightarrow> fold_entity_row \<Rightarrow> fold_entity_row" where
  "configured cfg s =
     (let c = assign_defaults cfg;
          opn = Some (case open_state s of Some b \<Rightarrow> b
                      | None \<Rightarrow> (case cfg_open c of Some b \<Rightarrow> b | None \<Rightarrow> False))
      in s\<lparr> config := c, open_state := opn, showContent := opn \<rparr>)"

section \<open>Example components\<close>

text \<open>The decimal digits of an integer: what JavaScript writes for an integer of magnitude
  below \<open>10^21\<close>.\<close>

definition dec_int :: "int \<Rightarrow> string" where
  "dec_int i = (if i < 0 then CHR ''-'' # dec_nat (nat (- i)) else dec_nat (nat i))"

text \<open>A row outside any card, whose header has no action handler of its own.  (No example
  below holds a number.)\<close>

definition env0 :: env where
  "env0 = \<lparr> parentCard = Undefined, header_action_handler = False,
            number_to_string = dec_int \<rparr>"

definition section_head :: jsval where
  "section_head = JObj [(''type'', JStr ''section''), (''label'', JStr ''Y'')]"

definition str_items :: "string list \<Rightarrow> jsval" where
  "str_items ids = JArr (map JStr ids)"

text \<open>A context whose state table holds one group with the given member list.\<close>

definition hass_with_group :: "string \<Rightarrow> jsval \<Rightarrow> jsval" where
  "hass_with_group g members =
     JObj [(''states'', JObj [(g, JObj [(''state'', JStr ''on''),
                                         (''attributes'', JObj [(''entity_id'', members)])])])]"

text \<open>\<^verbatim>\<open>{head: {type: section, label: Y}, entities: [light.a], items: [light.b]}\<close>\<close>

definition cfg_ab :: fold_config where
  "cfg_ab = (config fresh)\<lparr> head := section_head, entities := JArr [JStr ''light.a''],
                             items := JArr [JStr ''light.b''] \<rparr>"

definition s_ab :: fold_entity_row where
  "s_ab = snd (snd (setConfig env0 [] cfg_ab fresh))"

text \<open>\<^verbatim>\<open>{head: {type: section, label: Y}, entities: [light.x, light.y, light.z]}\<close>\<close>

definition cfg_xyz :: fold_config where
  "cfg_xyz = (config fresh)\<lparr> head := section_head,
       entities := JArr [JStr ''light.x'', JStr ''light.y'', JStr ''light.z''] \<rparr>"

definition s_xyz :: fold_entity_row where
  "s_xyz = snd (snd (setConfig env0 [] cfg_xyz fresh))"

text \<open>\<^verbatim>\<open>{entity: group.x, entities: [], items: [light.b]}\<close>, with a context in which
  \<^verbatim>\<open>group.x\<close> has the member \<^verbatim>\<open>light.c\<close>.\<close>

definition cfg_empty :: fold_config where
  "cfg_empty = (config fresh)\<lparr> entity := JStr ''group.x'', entities := JArr [],
                                items := JArr [JStr ''light.b''] \<rparr>"

definition s_empty :: fold_entity_row where
  "s_empty = snd (assign_hass env0 [] 0 (hass_with_group ''group.x'' (str_items [''light.c'']))
                   (snd (snd (setConfig env0 [] cfg_empty fresh))))"

text \<open>\<^verbatim>\<open>{entity: group.x}\<close>: configured, given a context in which the group is empty, loaded,
  and then given a context in which the group has one member.\<close>

definition cfg_group :: fold_config where
  "cfg_group = (config fresh)\<lparr> entity := JStr ''group.x'' \<rparr>"

definition s_group_empty :: fold_entity_row where
  "s_group_empty = snd (assign_hass env0 [] 0 (hass_with_group ''group.x'' (str_items []))
                           (snd (snd (setConfig env0 [] cfg_group fresh))))"

definition s_group_loaded :: fold_entity_row where
  "s_group_loaded = snd (load_rows env0 [] Direct s_group_empty)"

definition s_group_grown :: fold_entity_row where
  "s_group_grown = snd (assign_hass env0 [] 0 (hass_with_group ''group.x'' (str_items [''light.a'']))
                          s_group_loaded)"

text \<open>The empty configuration \<^verbatim>\<open>{}\<close>; \<^verbatim>\<open>{head: {type: section, label: Y}}\<close>; and the same with
  \<^verbatim>\<open>items: light.a\<close>, a string where a list is expected.\<close>

definition s_headless :: fold_entity_row where
  "s_headless = snd (snd (setConfig env0 [] (config fresh) fresh))"

definition cfg_no_items :: fold_config where
  "cfg_no_items = (config fresh)\<lparr> head := section_head \<rparr>"

definition s_no_items :: fold_entity_row where
  "s_no_items = snd (snd (setConfig env0 [] cfg_no_items fresh))"

definition cfg_not_list :: fold_config where
  "cfg_not_list = (config fresh)\<lparr> head := section_head, items := JStr ''light.a'' \<rparr>"

definition s_not_list :: fold_entity_row where
  "s_not_list = snd (snd (setConfig env0 [] cfg_not_list fresh))"

text \<open>\<^verbatim>\<open>{entity: light.x}\<close>; a section head with \<^verbatim>\<open>clickable: false\<close>; an empty string for
  \<^verbatim>\<open>entity\<close> beside a section head; and both \<^verbatim>\<open>entity\<close> and \<^verbatim>\<open>head\<close>.\<close>

definition cfg_light :: fold_config where
  "cfg_light = (config fresh)\<lparr> entity := JStr ''light.x'' \<rparr>"

definition cfg_explicit :: fold_config where
  "cfg_explicit = (config fresh)\<lparr> head := section_head, clickable := Some False \<rparr>"

definition cfg_blank_entity :: fold_config where
  "cfg_blank_entity = (config fresh)\<lparr> entity := JStr [], head := section_head \<rparr>"

definition cfg_both :: fold_config where
  "cfg_both = (config fresh)\<lparr> entity := JStr ''light.x'', head := section_head \<rparr>"

text \<open>The first example, configured with \<^verbatim>\<open>open: true\<close>, so that its row is loaded at once.\<close>

definition s_open :: fold_entity_row where
  "s_open = snd (snd (setConfig env0 [0] (cfg_ab\<lparr> cfg_open := Some True \<rparr>) fresh))"



text \<open>\<^verbatim>\<open>{entity: group.x}\<close> before any context has arrived, the same after a call of the loader,
  and a context in which \<^verbatim>\<open>group.x\<close> has the member \<^verbatim>\<open>light.a\<close>.\<close>

definition s_group0 :: fold_entity_row where
  "s_group0 = snd (snd (setConfig env0 [] cfg_group fresh))"


definition hass_a :: jsval where
  "hass_a = hass_with_group ''group.x'' (str_items [''light.a''])"


text \<open>\<^verbatim>\<open>{head: {type: section, label: Y}, items: [light.b]}\<close>; \<^verbatim>\<open>{entity: light.x}\<close> with a
  context that has no state for \<^verbatim>\<open>light.x\<close>; and \<^verbatim>\<open>{entity: group.x}\<close> with a context in
  which the member list of the group is a string.\<close>

definition cfg_items :: fold_config where
  "cfg_items = (config fresh)\<lparr> head := section_head, items := JArr [JStr ''light.b''] \<rparr>"

definition s_items :: fold_entity_row where
  "s_items = snd (snd (setConfig env0 [] cfg_items fresh))"

definition s_light :: fold_entity_row where
  "s_light = snd (assign_hass env0 [] 0 hass_a (snd (snd (setConfig env0 [] cfg_light fresh))))"

definition s_group_str :: fold_entity_row where
  "s_group_str = snd (assign_hass env0 [] 0 (hass_with_group ''group.x'' (JStr ''light.a'')) s_group0)"





section \<open>Lemmas about row creation and the loader\<close>


lemma createRow_state: "snd (createRow e s d b) = s\<lparr> factory_calls := Suc (factory_calls s) \<rparr>"
  by (simp add: createRow_def)

lemma createRow_config: "el_config (fst (createRow e s d b)) = row_config e (config s) b d"
  by (simp add: createRow_def)

lemma run_calls_state:
  "snd (run_calls e its sched (slots, s)) =
     s\<lparr> factory_calls := factory_calls (snd (run_calls e its sched (slots, s))) \<rparr>"
proof (induction sched arbitrary: slots s)
  case Nil
  show ?case by simp
next
  case (Cons i sched)
  show ?case
  proof (cases "i < length its \<and> slots ! i = None")
    case True
    let ?el = "fst (createRow e s (ensureObject (its ! i)) False)"
    let ?s' = "s\<lparr> factory_calls := Suc (factory_calls s) \<rparr>"
    have step: "run_calls e its (i # sched) (slots, s) = run_calls e its sched (slots[i := Some ?el], ?s')"
      using True by (simp add: createRow_def)
    show ?thesis
      unfolding step using Cons.IH [where slots="slots[i := Some ?el]" and s="?s'"] by simp
  next
    case False
    then have step: "run_calls e its (i # sched) (slots, s) = run_calls e its sched (slots, s)"
      by auto
    show ?thesis unfolding step by (rule Cons.IH)
  qed
qed

lemma run_calls_mono:
  "factory_calls s \<le> factory_calls (snd (run_calls e its sched (slots, s)))"
proof (induction sched arbitrary: slots s)
  case Nil
  show ?case by simp
next
  case (Cons i sched)
  show ?case
  proof (cases "i < length its \<and> slots ! i = None")
    case True
    let ?el = "fst (createRow e s (ensureObject (its ! i)) False)"
    let ?s' = "s\<lparr> factory_calls := Suc (factory_calls s) \<rparr>"
    have step: "run_calls e its (i # sched) (slots, s) = run_calls e its sched (slots[i := Some ?el], ?s')"
      using True by (simp add: createRow_def)
    show ?thesis
      unfolding step using Cons.IH [where slots="slots[i := Some ?el]" and s="?s'"] by simp
  next
    case False
    then have step: "run_calls e its (i # sched) (slots, s) = run_calls e its sched (slots, s)"
      by auto
    show ?thesis unfolding step by (rule Cons.IH)
  qed
qed

lemma run_calls_slots:
  "slots_ok e (config s) its slots \<Longrightarrow> slots_ok e (config s) its (fst (run_calls e its sched (slots, s)))"
proof (induction sched arbitrary: slots s)
  case Nil
  then show ?case by simp
next
  case (Cons i sched)
  show ?case
  proof (cases "i < length its \<and> slots ! i = None")
    case True
    let ?el = "fst (createRow e s (ensureObject (its ! i)) False)"
    let ?s' = "s\<lparr> factory_calls := Suc (factory_calls s) \<rparr>"
    have step: "run_calls e its (i # sched) (slots, s) = run_calls e its sched (slots[i := Some ?el], ?s')"
      using True by (simp add: createRow_def)
    have "slots_ok e (config ?s') its (slots[i := Some ?el])"
      using Cons.prems True by (auto simp: slots_ok_def createRow_config nth_list_update)
    from Cons.IH [OF this] show ?thesis unfolding step by simp
  next
    case False
    then have step: "run_calls e its (i # sched) (slots, s) = run_calls e its sched (slots, s)"
      by auto
    show ?thesis unfolding step by (rule Cons.IH [OF Cons.prems])
  qed
qed

lemma run_calls_filled:
  "length slots = length its \<Longrightarrow> i < length its \<Longrightarrow> i \<in> set sched \<or> slots ! i \<noteq> None
     \<Longrightarrow> fst (run_calls e its sched (slots, s)) ! i \<noteq> None"
proof (induction sched arbitrary: slots s)
  case Nil
  then show ?case by simp
next
  case (Cons j sched)
  show ?case
  proof (cases "j < length its \<and> slots ! j = None")
    case True
    let ?el = "fst (createRow e s (ensureObject (its ! j)) False)"
    let ?s' = "s\<lparr> factory_calls := Suc (factory_calls s) \<rparr>"
    have step: "run_calls e its (j # sched) (slots, s) = run_calls e its sched (slots[j := Some ?el], ?s')"
      using True by (simp add: createRow_def)
    have "i \<in> set sched \<or> slots[j := Some ?el] ! i \<noteq> None"
      using Cons.prems True by (auto simp: nth_list_update)
    with Cons.IH [where slots="slots[j := Some ?el]" and s="?s'"] Cons.prems show ?thesis
      unfolding step by simp
  next
    case False
    then have step: "run_calls e its (j # sched) (slots, s) = run_calls e its sched (slots, s)"
      by auto
    have "i \<in> set sched \<or> slots ! i \<noteq> None"
      using Cons.prems False by auto
    with Cons.IH [where slots=slots and s=s] Cons.prems show ?thesis unfolding step by simp
  qed
qed



lemma run_calls_fields:
  "config (snd (run_calls e its sched (slots, s))) = config s"
  "hass (snd (run_calls e its sched (slots, s))) = hass s"
  "open_state (snd (run_calls e its sched (slots, s))) = open_state s"
  "head_row (snd (run_calls e its sched (slots, s))) = head_row s"
  "rows (snd (run_calls e its sched (slots, s))) = rows s"
  "showContent (snd (run_calls e its sched (slots, s))) = showContent s"
  "hassResolve (snd (run_calls e its sched (slots, s))) = hassResolve s"
  "container (snd (run_calls e its sched (slots, s))) = container s"
  by (subst run_calls_state, simp)+

lemma run_calls_count:
  "length slots = length its \<Longrightarrow>
   factory_calls (snd (run_calls e its sched (slots, s)))
     + length (filter (\<lambda>x. x = None) (fst (run_calls e its sched (slots, s))))
   = factory_calls s + length (filter (\<lambda>x. x = None) slots)"
proof (induction sched arbitrary: slots s)
  case Nil
  show ?case by simp
next
  case (Cons i sched)
  show ?case
  proof (cases "i < length its \<and> slots ! i = None")
    case True
    let ?el = "fst (createRow e s (ensureObject (its ! i)) False)"
    let ?s' = "s\<lparr> factory_calls := Suc (factory_calls s) \<rparr>"
    have step: "run_calls e its (i # sched) (slots, s) = run_calls e its sched (slots[i := Some ?el], ?s')"
      using True by (simp add: createRow_def)
    have i: "i < length slots" "slots ! i = None" using True Cons.prems by auto
    define a b where "a = take i slots" and "b = drop (Suc i) slots"
    have s1: "slots = a @ None # b"
      unfolding a_def b_def using i by (metis id_take_nth_drop)
    have s2: "slots[i := Some ?el] = a @ Some ?el # b"
      unfolding a_def b_def using i by (simp add: upd_conv_take_nth_drop)
    have cnt: "length (filter (\<lambda>x. x = None) slots)
        = Suc (length (filter (\<lambda>x. x = None) (slots[i := Some ?el])))"
      unfolding s2 by (subst s1) simp
    have "length (slots[i := Some ?el]) = length its" using Cons.prems by simp
    from Cons.IH [where slots="slots[i := Some ?el]" and s="?s'", OF this] cnt
    show ?thesis unfolding step by simp
  next
    case False
    then have step: "run_calls e its (i # sched) (slots, s) = run_calls e its sched (slots, s)"
      by auto
    show ?thesis unfolding step by (rule Cons.IH [OF Cons.prems])
  qed
qed

lemma create_rows_complete:
  assumes "\<forall>i<length its. i \<in> set sched"
  shows "fst (create_rows e sched s its) = Fulfilled None"
    and "map el_config (rows (snd (create_rows e sched s its)))
           = map (\<lambda>d. row_config e (config s) False (ensureObject d)) its"
    and "factory_calls (snd (create_rows e sched s its)) = factory_calls s + length its"
proof -
  let ?r = "run_calls e its sched (replicate (length its) None, s)"
  have ok0: "slots_ok e (config s) its (replicate (length its) None)"
    by (simp add: slots_ok_def)
  have ok: "slots_ok e (config s) its (fst ?r)"
    by (rule run_calls_slots [OF ok0])
  have len: "length (fst ?r) = length its" using ok by (simp add: slots_ok_def)
  have filled: "\<forall>i<length its. fst ?r ! i \<noteq> None"
    using assms run_calls_filled [where slots="replicate (length its) None" and its=its and sched=sched]
    by simp
  have all: "list_all (\<lambda>x. x \<noteq> None) (fst ?r)"
    using filled len by (simp add: list_all_length)
  show "fst (create_rows e sched s its) = Fulfilled None"
    using all by (simp add: create_rows_def split_beta)
  have rows: "rows (snd (create_rows e sched s its)) = map the (fst ?r)"
    using all by (simp add: create_rows_def split_beta)
  show "map el_config (rows (snd (create_rows e sched s its)))
           = map (\<lambda>d. row_config e (config s) False (ensureObject d)) its"
    unfolding rows
  proof (rule nth_equalityI)
    show "length (map el_config (map the (fst ?r)))
            = length (map (\<lambda>d. row_config e (config s) False (ensureObject d)) its)"
      using len by simp
  next
    fix i assume "i < length (map el_config (map the (fst ?r)))"
    then have i: "i < length its" using len by simp
    with filled obtain el where el: "fst ?r ! i = Some el" by auto
    with ok i have "el_config el = row_config e (config s) False (ensureObject (its ! i))"
      by (simp add: slots_ok_def)
    with i len el show "map el_config (map the (fst ?r)) ! i
        = map (\<lambda>d. row_config e (config s) False (ensureObject d)) its ! i"
      by simp
  qed
  have "filter (\<lambda>x. x = None) (fst ?r) = []"
    using all by (simp add: filter_empty_conv list_all_iff)
  with run_calls_count [where slots="replicate (length its) None" and its=its and sched=sched and s=s and e=e]
  have "factory_calls (snd ?r) = factory_calls s + length its" by simp
  then show "factory_calls (snd (create_rows e sched s its)) = factory_calls s + length its"
    using all by (simp add: create_rows_def split_beta)
qed

lemma create_rows_frame:
  "config (snd (create_rows e sched s its)) = config s"
  "hass (snd (create_rows e sched s its)) = hass s"
  "open_state (snd (create_rows e sched s its)) = open_state s"
  "head_row (snd (create_rows e sched s its)) = head_row s"
  "showContent (snd (create_rows e sched s its)) = showContent s"
  "hassResolve (snd (create_rows e sched s its)) = hassResolve s"
  "container (snd (create_rows e sched s its)) = container s"
  by (simp_all add: create_rows_def split_beta run_calls_fields)

lemma create_rows_calls:
  "factory_calls s \<le> factory_calls (snd (create_rows e sched s its))"
  using run_calls_mono [of s e its sched "replicate (length its) None"]
  by (simp add: create_rows_def split_beta)



lemma completes_iff: "completes sched n \<longleftrightarrow> (\<forall>i<n. i \<in> set sched)"
  by (auto simp: completes_def list_all_iff)

lemma finish_rows_frame:
  "config (snd (finish_rows e sched s v)) = config s"
  "hass (snd (finish_rows e sched s v)) = hass s"
  "open_state (snd (finish_rows e sched s v)) = open_state s"
  "head_row (snd (finish_rows e sched s v)) = head_row s"
  "showContent (snd (finish_rows e sched s v)) = showContent s"
  "hassResolve (snd (finish_rows e sched s v)) = hassResolve s"
  "container (snd (finish_rows e sched s v)) = container s"
  by (simp_all add: finish_rows_def create_rows_frame split: jsval.splits)

lemma finish_rows_calls: "factory_calls s \<le> factory_calls (snd (finish_rows e sched s v))"
  by (simp add: finish_rows_def create_rows_calls split: jsval.splits)

lemma derive_rows_frame:
  "config (snd (derive_rows e sched s hdr)) = config s"
  "hass (snd (derive_rows e sched s hdr)) = hass s"
  "open_state (snd (derive_rows e sched s hdr)) = open_state s"
  "head_row (snd (derive_rows e sched s hdr)) = head_row s"
  "showContent (snd (derive_rows e sched s hdr)) = showContent s"
  "hassResolve (snd (derive_rows e sched s hdr)) = None"
  "container (snd (derive_rows e sched s hdr)) = container s"
  by (simp_all add: derive_rows_def Let_def finish_rows_frame split: sum.splits)

lemma derive_rows_calls: "factory_calls s \<le> factory_calls (snd (derive_rows e sched s hdr))"
  using finish_rows_calls [of "s\<lparr>hassResolve := None\<rparr>"]
  by (simp add: derive_rows_def Let_def split: sum.splits)

lemma load_rows_frame:
  "config (snd (load_rows e sched k s)) = config s"
  "hass (snd (load_rows e sched k s)) = hass s"
  "open_state (snd (load_rows e sched k s)) = open_state s"
  "head_row (snd (load_rows e sched k s)) = head_row s"
  "showContent (snd (load_rows e sched k s)) = showContent s"
  "container (snd (load_rows e sched k s)) = container s"
  by (simp_all add: load_rows_def Let_def finish_rows_frame derive_rows_frame)

lemma load_rows_calls: "factory_calls s \<le> factory_calls (snd (load_rows e sched k s))"
  by (simp add: load_rows_def Let_def finish_rows_calls derive_rows_calls)

lemma load_rows_cached:
  "rows s \<noteq> [] \<Longrightarrow> load_rows e sched k s = (Fulfilled (Some (rows s)), s)"
  by (simp add: load_rows_def)

lemma load_rows_explicit:
  "rows s = [] \<Longrightarrow> \<not> nullish (ensureObject (js_or (entity (config s)) (head (config s))))
     \<Longrightarrow> js_or (entities (config s)) (items (config s)) = JArr its
     \<Longrightarrow> load_rows e sched k s = create_rows e sched s its"
  by (simp add: load_rows_def Let_def finish_rows_def)

lemma load_rows_derived:
  "rows s = [] \<Longrightarrow> \<not> nullish hdr \<Longrightarrow> hdr = ensureObject (js_or (entity (config s)) (head (config s)))
     \<Longrightarrow> js_or (entities (config s)) (items (config s)) = Undefined
     \<Longrightarrow> truthy (get_prop hdr ''entity'') \<Longrightarrow> hass s \<noteq> Undefined
     \<Longrightarrow> load_rows e sched k s = derive_rows e sched s hdr"
  by (simp add: load_rows_def Let_def)

lemma create_rows_members:
  "el \<in> set (rows (snd (create_rows e sched s its))) \<Longrightarrow>
     el \<in> set (rows s) \<or> (\<exists>d\<in>set its. el_config el = row_config e (config s) False (ensureObject d))"
proof -
  assume el: "el \<in> set (rows (snd (create_rows e sched s its)))"
  let ?r = "run_calls e its sched (replicate (length its) None, s)"
  have ok: "slots_ok e (config s) its (fst ?r)"
    by (rule run_calls_slots) (simp add: slots_ok_def)
  show ?thesis
  proof (cases "list_all (\<lambda>x. x \<noteq> None) (fst ?r)")
    case True
    then have "rows (snd (create_rows e sched s its)) = map the (fst ?r)"
      by (simp add: create_rows_def split_beta)
    with el obtain i where i: "i < length (fst ?r)" "el = the (fst ?r ! i)"
      by (auto simp: in_set_conv_nth)
    with True have "fst ?r ! i = Some el" by (auto simp: list_all_length)
    with ok i have "el_config el = row_config e (config s) False (ensureObject (its ! i))" "i < length its"
      by (auto simp: slots_ok_def)
    then show ?thesis by auto
  next
    case False
    then have "rows (snd (create_rows e sched s its)) = rows s"
      by (simp add: create_rows_def split_beta run_calls_fields)
    with el show ?thesis by simp
  qed
qed


lemma run_calls_no_items: "run_calls e [] sched (slots, s) = (slots, s)"
  by (induction sched) simp_all

lemma load_rows_no_items:
  assumes "rows s = []" and "\<not> nullish (head_descriptor (config s))"
    and "js_or (entities (config s)) (items (config s)) = Undefined"
    and "\<not> truthy (get_prop (head_descriptor (config s)) ''entity'')"
  shows "load_rows e sched k s = (Rejected (Error ''No entities specified.''), s)"
  using assms by (simp add: load_rows_def Let_def finish_rows_def)

lemma load_rows_not_list:
  assumes "rows s = []" and "\<not> nullish (head_descriptor (config s))"
    and "js_or (entities (config s)) (items (config s)) = v" and "v \<noteq> Undefined" and "\<not> isArray v"
  shows "load_rows e sched k s = (Rejected (Error ''Entities must be a list.''), s)"
  using assms by (auto simp: load_rows_def Let_def finish_rows_def)

lemma load_rows_group:
  assumes "rows s = []" and "\<not> nullish (head_descriptor (config s))"
    and "js_or (entities (config s)) (items (config s)) = Undefined"
    and "truthy (get_prop (head_descriptor (config s)) ''entity'')"
    and "group_members e (hass s) (get_prop (head_descriptor (config s)) ''entity'') = Inr v"
  shows "load_rows e sched k s = finish_rows e sched (s\<lparr>hassResolve := None\<rparr>) v"
proof -
  have "hass s \<noteq> Undefined" using assms(5) by (auto simp: group_members_def)
  then have "load_rows e sched k s = derive_rows e sched s (head_descriptor (config s))"
    by (rule load_rows_derived [OF assms(1,2) refl assms(3,4)])
  then show ?thesis using assms(5) by (simp add: derive_rows_def Let_def)
qed

lemma create_rows_not_rejected: "fst (create_rows e sched s its) \<noteq> Rejected err"
  by (simp add: create_rows_def split_beta)

lemma finish_rows_rejected:
  "fst (finish_rows e sched s v) = Rejected err \<Longrightarrow> snd (finish_rows e sched s v) = s"
  by (cases v) (auto simp: finish_rows_def create_rows_not_rejected)

lemma derive_rows_rejected:
  "fst (derive_rows e sched s hdr) = Rejected err
     \<Longrightarrow> snd (derive_rows e sched s hdr) = s\<lparr>hassResolve := None\<rparr>"
  by (auto simp: derive_rows_def Let_def finish_rows_rejected split: sum.splits)

lemma load_rows_rejected:
  "fst (load_rows e sched k s) = Rejected err \<Longrightarrow>
     rows (snd (load_rows e sched k s)) = rows s
     \<and> factory_calls (snd (load_rows e sched k s)) = factory_calls s"
  by (auto simp: load_rows_def Let_def finish_rows_rejected derive_rows_rejected split: if_splits)


lemma load_rows_uncached:
  "rows s = [] \<Longrightarrow> fst (load_rows e sched k s) \<noteq> Fulfilled (Some xs)"
  by (auto simp: load_rows_def Let_def derive_rows_def finish_rows_def create_rows_def split_beta
           split: sum.splits jsval.splits)

section \<open>Lemmas about the header and the configuration\<close>

lemma row_config_clickable [simp]:
  "row_config e (c\<lparr>clickable := x\<rparr>) b d = row_config e c b d"
  by (simp add: row_config_def effective_state_color_def)

lemma load_head_rejected:
  "\<not> truthy (head_descriptor (config s))
     \<Longrightarrow> load_head e s = (Rejected (Error ''No fold head specified''), s)"
  by (simp add: load_head_def Let_def)

lemma load_head_fulfilled:
  assumes "truthy (head_descriptor (config s))"
  shows "fst (load_head e s) = Fulfilled ()"
    and "map_option el_config (head_row (snd (load_head e s)))
           = Some (row_config e (config s) True (head_descriptor (config s)))"
    and "map_option el_id (head_row (snd (load_head e s))) = Some (factory_calls s)"
    and "factory_calls (snd (load_head e s)) = Suc (factory_calls s)"
    and "config (snd (load_head e s))
           = (if clickable (config s) = None
                 \<and> get_prop (head_descriptor (config s)) ''entity'' = Undefined
                 \<and> get_prop (head_descriptor (config s)) ''tap_action'' = Undefined
              then (config s)\<lparr>clickable := Some True\<rparr> else config s)"
  using assms
  by (simp_all add: load_head_def Let_def createRow_def aria_def split_beta)

lemma load_head_frame:
  "open_state (snd (load_head e s)) = open_state s"
  "rows (snd (load_head e s)) = rows s"
  "hass (snd (load_head e s)) = hass s"
  "showContent (snd (load_head e s)) = showContent s"
  "hassResolve (snd (load_head e s)) = hassResolve s"
  "container (snd (load_head e s)) = container s"
  by (simp_all add: load_head_def Let_def createRow_def split_beta)

lemma load_head_calls: "factory_calls (snd (load_head e s)) \<le> Suc (factory_calls s)"
  by (simp add: load_head_def Let_def createRow_def split_beta)

lemma load_head_config_fields:
  "cfg_open (config (snd (load_head e s))) = cfg_open (config s)"
  "entity (config (snd (load_head e s))) = entity (config s)"
  "head (config (snd (load_head e s))) = head (config s)"
  "entities (config (snd (load_head e s))) = entities (config s)"
  "items (config (snd (load_head e s))) = items (config s)"
  by (simp_all add: load_head_def Let_def createRow_def split_beta)

lemma cfg_open_defaults: "cfg_open (assign_defaults cfg) = Some (cfg_open cfg = Some True)"
  by (cases "cfg_open cfg") (auto simp: assign_defaults_def)

lemma assign_defaults_fields:
  "entity (assign_defaults cfg) = entity cfg" "head (assign_defaults cfg) = head cfg"
  "entities (assign_defaults cfg) = entities cfg" "items (assign_defaults cfg) = items cfg"
  "clickable (assign_defaults cfg) = clickable cfg"
  by (simp_all add: assign_defaults_def)

lemma configured_fields:
  "config (configured cfg s) = assign_defaults cfg"
  "open_state (configured cfg s)
     = Some (case open_state s of Some b \<Rightarrow> b | None \<Rightarrow> cfg_open cfg = Some True)"
  "showContent (configured cfg s) = open_state (configured cfg s)"
  "rows (configured cfg s) = rows s" "hass (configured cfg s) = hass s"
  "head_row (configured cfg s) = head_row s" "hassResolve (configured cfg s) = hassResolve s"
  "container (configured cfg s) = container s" "factory_calls (configured cfg s) = factory_calls s"
  by (cases "open_state s"; simp add: configured_def Let_def cfg_open_defaults)+

lemma setConfig_unfold:
  "setConfig e sched cfg s =
     (let s3 = (snd (load_head e (configured cfg s)))\<lparr>rows := []\<rparr> in
      if cfg_open cfg = Some True
      then (fst (load_head e (configured cfg s)), Some (fst (load_rows e sched Direct s3)),
            snd (load_rows e sched Direct s3))
      else (fst (load_head e (configured cfg s)), None, s3))"
proof -
  show ?thesis
    by (simp add: setConfig_def Let_def split_beta configured_def [symmetric, unfolded Let_def]
        load_head_config_fields cfg_open_defaults)
qed


lemma setConfig_state:
  "snd (snd (setConfig e sched cfg s)) =
     (if cfg_open cfg = Some True
      then snd (load_rows e sched Direct ((snd (load_head e (configured cfg s)))\<lparr>rows := []\<rparr>))
      else (snd (load_head e (configured cfg s)))\<lparr>rows := []\<rparr>)"
  by (simp add: setConfig_unfold Let_def)

lemma setConfig_frame:
  "config (snd (snd (setConfig e sched cfg s))) = config (snd (load_head e (configured cfg s)))"
  "open_state (snd (snd (setConfig e sched cfg s))) = open_state (configured cfg s)"
  "showContent (snd (snd (setConfig e sched cfg s))) = open_state (configured cfg s)"
  "head_row (snd (snd (setConfig e sched cfg s))) = head_row (snd (load_head e (configured cfg s)))"
  "hass (snd (snd (setConfig e sched cfg s))) = hass s"
  by (simp_all add: setConfig_state load_rows_frame load_head_frame configured_fields)

lemma setConfig_head_outcome:
  "fst (setConfig e sched cfg s) = fst (load_head e (configured cfg s))"
  by (simp add: setConfig_unfold Let_def)


section \<open>Lemmas about toggling and the context\<close>














section \<open>The example components, evaluated\<close>

lemma s_ab_loaded: "rows (snd (load_rows env0 [0] Direct s_ab)) \<noteq> []"
  by code_simp

lemma s_xyz_facts:
  "rows s_xyz = []" "factory_calls s_xyz = 1"
  "load_rows env0 [2, 0, 1] Direct s_xyz
     = create_rows env0 [2, 0, 1] s_xyz [JStr ''light.x'', JStr ''light.y'', JStr ''light.z'']"
  "map el_id (rows (snd (load_rows env0 [2, 0, 1] Direct s_xyz))) = [2, 3, 1]"
  "child_config env0 (config s_xyz) (JStr ''light.x'') = [(''entity'', JStr ''light.x''), (''state_color'', Undefined)]"
  "child_config env0 (config s_xyz) (JStr ''light.y'') = [(''entity'', JStr ''light.y''), (''state_color'', Undefined)]"
  "child_config env0 (config s_xyz) (JStr ''light.z'') = [(''entity'', JStr ''light.z''), (''state_color'', Undefined)]"
  by code_simp+

lemma s_empty_facts:
  "rows s_empty = []" "entities (config s_empty) = JArr []"
  "items (config s_empty) = JArr [JStr ''light.b'']"
  "head_descriptor (config s_empty) = JObj [(''entity'', JStr ''group.x'')]"
  "group_members env0 (hass s_empty) (JStr ''group.x'') = Inr (JArr [JStr ''light.c''])"
  by code_simp+

lemma s_no_items_facts:
  "rows s_no_items = []" "\<not> nullish (head_descriptor (config s_no_items))"
  "js_or (entities (config s_no_items)) (items (config s_no_items)) = Undefined"
  "\<not> truthy (get_prop (head_descriptor (config s_no_items)) ''entity'')"
  "rows s_not_list = []" "\<not> nullish (head_descriptor (config s_not_list))"
  "js_or (entities (config s_not_list)) (items (config s_not_list)) = JStr ''light.a''"
  by code_simp+

lemma cfg_facts:
  "clickable cfg_light = None" "head_descriptor cfg_light = JObj [(''entity'', JStr ''light.x'')]"
  "clickable cfg_no_items = None"
  "head_descriptor cfg_no_items = JObj [(''type'', JStr ''section''), (''label'', JStr ''Y'')]"
  "clickable cfg_explicit = Some False"
  by code_simp+

lemma s_open_facts:
  "open_state s_open = Some True" "rows s_open \<noteq> []"
  "cfg_open (cfg_ab\<lparr> cfg_open := Some False \<rparr>) = Some False"
  by code_simp+



lemma source_facts:
  "rows s_items = []" "\<not> truthy (entities (config s_items))"
  "items (config s_items) = JArr [JStr ''light.b'']"
  "\<not> nullish (head_descriptor (config s_items))"
  "child_config env0 (config s_items) (JStr ''light.b'')
     = [(''entity'', JStr ''light.b''), (''state_color'', Undefined)]"
  "rows s_group_grown = []" "\<not> truthy (entities (config s_group_grown))"
  "items (config s_group_grown) = Undefined"
  "\<not> nullish (head_descriptor (config s_group_grown))"
  "get_prop (head_descriptor (config s_group_grown)) ''entity'' = JStr ''group.x''"
  "group_members env0 (hass s_group_grown) (JStr ''group.x'') = Inr (JArr [JStr ''light.a''])"
  "child_config env0 (config s_group_grown) (JStr ''light.a'')
     = [(''entity'', JStr ''light.a''), (''state_color'', Undefined)]"
  by code_simp+

lemma s_ab_facts:
  "rows s_ab = []" "entities (config s_ab) = JArr [JStr ''light.a'']"
  "items (config s_ab) = JArr [JStr ''light.b'']"
  "\<not> nullish (head_descriptor (config s_ab))"
  "child_config env0 (config s_ab) (JStr ''light.a'')
     = [(''entity'', JStr ''light.a''), (''state_color'', Undefined)]"
  by code_simp+

lemma one_call: "completes [0] (length [x])"
  by (simp add: completes_def)

lemma error_facts:
  "rows s_light = []" "\<not> nullish (head_descriptor (config s_light))"
  "js_or (entities (config s_light)) (items (config s_light)) = Undefined"
  "get_prop (head_descriptor (config s_light)) ''entity'' = JStr ''light.x''"
  "group_members env0 (hass s_light) (JStr ''light.x'') = Inr Undefined"
  "rows s_group_str = []" "\<not> nullish (head_descriptor (config s_group_str))"
  "js_or (entities (config s_group_str)) (items (config s_group_str)) = Undefined"
  "get_prop (head_descriptor (config s_group_str)) ''entity'' = JStr ''group.x''"
  "group_members env0 (hass s_group_str) (JStr ''group.x'') = Inr (JStr ''light.a'')"
  by code_simp+

lemma fresh_facts: "open_state fresh = None" "cfg_open cfg_ab = None"
  by code_simp+


lemma reload_facts: "rows s_group_loaded = []"
  by code_simp


section \<open>C1: priority of the item sources\<close>

text \<open>
  C1.  A loader that finds no cached rows takes its items from exactly one source, chosen in a
  fixed order.  If \<^verbatim>\<open>entities\<close> is a list, every child row is made from one of its members,
  whatever \<^verbatim>\<open>items\<close> and the context hold; and when the configuration has a head and all
  creations complete, the rows are exactly the rows of that list, in order.  If \<^verbatim>\<open>entities\<close>
  is absent (falsy) and \<^verbatim>\<open>items\<close> is a list, the same holds of \<^verbatim>\<open>items\<close>.  If neither is given
  and the head names an entity, the rows are those of the member list which the context holds
  for that entity.  For \<^verbatim>\<open>entities = [a]\<close> and \<^verbatim>\<open>items = [b]\<close> the only row is the row of
  \<^verbatim>\<open>a\<close>.
\<close>

theorem item_source_priority:
  assumes "rows s = []"
  shows "(entities (config s) = JArr es \<longrightarrow>
            (\<forall>el\<in>set (rows (snd (load_rows e sched k s))).
                \<exists>d\<in>set es. el_config el = child_config e (config s) d) \<and>
            (\<not> nullish (head_descriptor (config s)) \<and> completes sched (length es) \<longrightarrow>
               fst (load_rows e sched k s) = Fulfilled None \<and>
               map el_config (rows (snd (load_rows e sched k s)))
                 = map (child_config e (config s)) es))
       \<and> (\<not> truthy (entities (config s)) \<and> items (config s) = JArr ys \<longrightarrow>
            (\<forall>el\<in>set (rows (snd (load_rows e sched k s))).
                \<exists>d\<in>set ys. el_config el = child_config e (config s) d) \<and>
            (\<not> nullish (head_descriptor (config s)) \<and> completes sched (length ys) \<longrightarrow>
               fst (load_rows e sched k s) = Fulfilled None \<and>
               map el_config (rows (snd (load_rows e sched k s)))
                 = map (child_config e (config s)) ys))
       \<and> (\<not> truthy (entities (config s)) \<and> items (config s) = Undefined
            \<and> \<not> nullish (head_descriptor (config s))
            \<and> truthy (get_prop (head_descriptor (config s)) ''entity'')
            \<and> group_members e (hass s) (get_prop (head_descriptor (config s)) ''entity'') = Inr (JArr ms)
            \<and> completes sched (length ms) \<longrightarrow>
               fst (load_rows e sched k s) = Fulfilled None \<and>
               map el_config (rows (snd (load_rows e sched k s)))
                 = map (child_config e (config s)) ms)"
proof -
  have explicit: "(\<forall>el\<in>set (rows (snd (load_rows e sched k s))).
                \<exists>d\<in>set xs. el_config el = child_config e (config s) d) \<and>
            (\<not> nullish (head_descriptor (config s)) \<and> completes sched (length xs) \<longrightarrow>
               fst (load_rows e sched k s) = Fulfilled None \<and>
               map el_config (rows (snd (load_rows e sched k s)))
                 = map (child_config e (config s)) xs)"
    if src: "js_or (entities (config s)) (items (config s)) = JArr xs" for xs
  proof (cases "nullish (head_descriptor (config s))")
    case True
    then have "load_rows e sched k s = (Rejected TypeError, s)"
      using assms by (simp add: load_rows_def Let_def)
    with assms True show ?thesis by simp
  next
    case False
    have eq: "load_rows e sched k s = create_rows e sched s xs"
      by (rule load_rows_explicit [OF assms False src])
    have "\<exists>d\<in>set xs. el_config el = child_config e (config s) d"
      if "el \<in> set (rows (snd (create_rows e sched s xs)))" for el
      using create_rows_members [OF that] assms by simp
    moreover have "fst (create_rows e sched s xs) = Fulfilled None \<and>
        map el_config (rows (snd (create_rows e sched s xs))) = map (child_config e (config s)) xs"
      if "completes sched (length xs)"
      using create_rows_complete(1,2) [of xs sched e s] that by (simp add: completes_iff)
    ultimately show ?thesis unfolding eq by blast
  qed
  have c1: "entities (config s) = JArr es \<Longrightarrow> js_or (entities (config s)) (items (config s)) = JArr es"
    by (simp add: js_or_def)
  have c2: "\<not> truthy (entities (config s)) \<and> items (config s) = JArr ys
      \<Longrightarrow> js_or (entities (config s)) (items (config s)) = JArr ys"
    by (simp add: js_or_def)
  have c3: "fst (load_rows e sched k s) = Fulfilled None \<and>
               map el_config (rows (snd (load_rows e sched k s)))
                 = map (child_config e (config s)) ms"
    if h: "\<not> truthy (entities (config s))" "items (config s) = Undefined"
       "\<not> nullish (head_descriptor (config s))"
       "truthy (get_prop (head_descriptor (config s)) ''entity'')"
       "group_members e (hass s) (get_prop (head_descriptor (config s)) ''entity'') = Inr (JArr ms)"
       "completes sched (length ms)"
  proof -
    have und: "js_or (entities (config s)) (items (config s)) = Undefined"
      using h(1,2) by (simp add: js_or_def)
    have hs: "hass s \<noteq> Undefined"
      using h(5) by (auto simp: group_members_def)
    have "load_rows e sched k s = derive_rows e sched s (head_descriptor (config s))"
      by (rule load_rows_derived [OF assms h(3) refl und h(4) hs])
    also have "\<dots> = create_rows e sched (s\<lparr>hassResolve := None\<rparr>) ms"
      using h(5) by (simp add: derive_rows_def Let_def finish_rows_def)
    finally have eq: "load_rows e sched k s = create_rows e sched (s\<lparr>hassResolve := None\<rparr>) ms" .
    show ?thesis
      unfolding eq
      using create_rows_complete(1,2) [of ms sched e "s\<lparr>hassResolve := None\<rparr>"] h(6)
      by (simp add: completes_iff)
  qed
  show ?thesis
    using explicit [OF c1] explicit [OF c2] c3 by blast
qed

text \<open>The example of the claim, \<^verbatim>\<open>entities = [light.a]\<close> and \<^verbatim>\<open>items = [light.b]\<close>; then
  \<^verbatim>\<open>items\<close> alone; then the group of the head, read from the context.\<close>

theorem item_source_priority_witness:
  "rows s_ab = [] \<and> entities (config s_ab) = JArr [JStr ''light.a'']
     \<and> items (config s_ab) = JArr [JStr ''light.b'']
     \<and> fst (load_rows env0 [0] Direct s_ab) = Fulfilled None
     \<and> map el_config (rows (snd (load_rows env0 [0] Direct s_ab)))
          = [[(''entity'', JStr ''light.a''), (''state_color'', Undefined)]]
   \<and> rows s_items = [] \<and> \<not> truthy (entities (config s_items))
     \<and> items (config s_items) = JArr [JStr ''light.b'']
     \<and> map el_config (rows (snd (load_rows env0 [0] Direct s_items)))
          = [[(''entity'', JStr ''light.b''), (''state_color'', Undefined)]]
   \<and> rows s_group_grown = [] \<and> \<not> truthy (entities (config s_group_grown))
     \<and> items (config s_group_grown) = Undefined
     \<and> group_members env0 (hass s_group_grown) (JStr ''group.x'') = Inr (JArr [JStr ''light.a''])
     \<and> map el_config (rows (snd (load_rows env0 [0] Direct s_group_grown)))
          = [[(''entity'', JStr ''light.a''), (''state_color'', Undefined)]]"
  using item_source_priority [OF s_ab_facts(1), where es="[JStr ''light.a'']" and e=env0
                               and sched="[0]" and k=Direct]
        item_source_priority [OF source_facts(1), where ys="[JStr ''light.b'']" and e=env0
                               and sched="[0]" and k=Direct]
        item_source_priority [OF source_facts(6), where ms="[JStr ''light.a'']" and e=env0
                               and sched="[0]" and k=Direct]
        s_ab_facts source_facts one_call
  by simp

section \<open>C2: a second call of the loader\<close>

text \<open>
  C2, as stated, fails when the resolved item list is empty.  The guard of line 96 tests the
  length of the cached list, so an empty list is resolved again by the next call: that call
  returns \<^verbatim>\<open>undefined\<close> rather than the cached list, and when the membership of the group has
  grown in the meantime (no \<^verbatim>\<open>setConfig\<close> in between) it calls the row factory.
\<close>

theorem reload_counterexample:
  "fst (load_rows env0 [] Direct s_group_empty) = Fulfilled None
   \<and> rows s_group_loaded = []
   \<and> fst (load_rows env0 [] Direct s_group_loaded) \<noteq> Fulfilled (Some (rows s_group_loaded))
   \<and> config s_group_grown = config s_group_loaded
   \<and> factory_calls (snd (load_rows env0 [0] Direct s_group_grown)) = Suc (factory_calls s_group_grown)
   \<and> rows (snd (load_rows env0 [0] Direct s_group_grown)) \<noteq> rows s_group_loaded"
  by code_simp

text \<open>
  C2, amended.  When the cached handle list is not empty, a call of the loader returns that very
  list, leaves the whole component state as it is, and calls the row factory not at all.  When
  the cached list is empty, as it also is after a load whose item list was empty, a call never
  returns the cached list: it resolves the item source again.  Where that source is a list,
  given explicitly or read from the context as the members of the group, the configuration has
  a head and all creations complete, the call is fulfilled with \<^verbatim>\<open>undefined\<close>, makes one call of
  the row factory for each item and caches the handles in item order.
\<close>

theorem cached_rows_returned:
  "(rows s \<noteq> [] \<longrightarrow> load_rows e sched k s = (Fulfilled (Some (rows s)), s))
   \<and> (rows s = [] \<longrightarrow> fst (load_rows e sched k s) \<noteq> Fulfilled (Some xs))
   \<and> (rows s = [] \<and> \<not> nullish (head_descriptor (config s))
        \<and> js_or (entities (config s)) (items (config s)) = JArr its
        \<and> completes sched (length its) \<longrightarrow>
          fst (load_rows e sched k s) = Fulfilled None
          \<and> factory_calls (snd (load_rows e sched k s)) = factory_calls s + length its
          \<and> map el_config (rows (snd (load_rows e sched k s)))
               = map (child_config e (config s)) its)
   \<and> (rows s = [] \<and> \<not> nullish (head_descriptor (config s))
        \<and> js_or (entities (config s)) (items (config s)) = Undefined
        \<and> truthy (get_prop (head_descriptor (config s)) ''entity'')
        \<and> group_members e (hass s) (get_prop (head_descriptor (config s)) ''entity'') = Inr (JArr ms)
        \<and> completes sched (length ms) \<longrightarrow>
          fst (load_rows e sched k s) = Fulfilled None
          \<and> factory_calls (snd (load_rows e sched k s)) = factory_calls s + length ms
          \<and> map el_config (rows (snd (load_rows e sched k s)))
               = map (child_config e (config s)) ms)"
proof (intro conjI impI)
  assume "rows s \<noteq> []"
  then show "load_rows e sched k s = (Fulfilled (Some (rows s)), s)"
    by (rule load_rows_cached)
next
  assume "rows s = []"
  then show "fst (load_rows e sched k s) \<noteq> Fulfilled (Some xs)"
    by (rule load_rows_uncached)
next
  assume a: "rows s = [] \<and> \<not> nullish (head_descriptor (config s))
        \<and> js_or (entities (config s)) (items (config s)) = JArr its
        \<and> completes sched (length its)"
  then have eq: "load_rows e sched k s = create_rows e sched s its"
    using load_rows_explicit [of s its e sched k] by simp
  from a have all: "\<forall>i<length its. i \<in> set sched" by (simp add: completes_iff)
  show "fst (load_rows e sched k s) = Fulfilled None"
    unfolding eq by (rule create_rows_complete(1) [OF all])
  show "factory_calls (snd (load_rows e sched k s)) = factory_calls s + length its"
    unfolding eq by (rule create_rows_complete(3) [OF all])
  show "map el_config (rows (snd (load_rows e sched k s))) = map (child_config e (config s)) its"
    unfolding eq by (rule create_rows_complete(2) [OF all])
next
  assume a: "rows s = [] \<and> \<not> nullish (head_descriptor (config s))
        \<and> js_or (entities (config s)) (items (config s)) = Undefined
        \<and> truthy (get_prop (head_descriptor (config s)) ''entity'')
        \<and> group_members e (hass s) (get_prop (head_descriptor (config s)) ''entity'') = Inr (JArr ms)
        \<and> completes sched (length ms)"
  then have "load_rows e sched k s = finish_rows e sched (s\<lparr>hassResolve := None\<rparr>) (JArr ms)"
    using load_rows_group [of s e "JArr ms" sched k] by simp
  then have eq: "load_rows e sched k s = create_rows e sched (s\<lparr>hassResolve := None\<rparr>) ms"
    by (simp add: finish_rows_def)
  from a have all: "\<forall>i<length ms. i \<in> set sched" by (simp add: completes_iff)
  show "fst (load_rows e sched k s) = Fulfilled None"
    unfolding eq by (rule create_rows_complete(1) [OF all])
  show "factory_calls (snd (load_rows e sched k s)) = factory_calls s + length ms"
    unfolding eq using create_rows_complete(3) [OF all, of e "s\<lparr>hassResolve := None\<rparr>"] by simp
  show "map el_config (rows (snd (load_rows e sched k s))) = map (child_config e (config s)) ms"
    unfolding eq using create_rows_complete(2) [OF all, of e "s\<lparr>hassResolve := None\<rparr>"] by simp
qed

text \<open>A loaded row list is returned as it is; the empty list of the group example is not, and
  once the group has a member the next call creates its row.\<close>

theorem cached_rows_returned_witness:
  "rows (snd (load_rows env0 [0] Direct s_ab)) \<noteq> []
   \<and> load_rows env0 [] ViaToggle (snd (load_rows env0 [0] Direct s_ab))
       = (Fulfilled (Some (rows (snd (load_rows env0 [0] Direct s_ab)))),
          snd (load_rows env0 [0] Direct s_ab))
   \<and> rows s_group_loaded = []
   \<and> fst (load_rows env0 [] Direct s_group_loaded) \<noteq> Fulfilled (Some (rows s_group_loaded))
   \<and> rows s_ab = []
   \<and> factory_calls (snd (load_rows env0 [0] Direct s_ab)) = factory_calls s_ab + 1
   \<and> rows s_group_grown = []
   \<and> group_members env0 (hass s_group_grown) (JStr ''group.x'') = Inr (JArr [JStr ''light.a''])
   \<and> fst (load_rows env0 [0] Direct s_group_grown) = Fulfilled None
   \<and> factory_calls (snd (load_rows env0 [0] Direct s_group_grown)) = factory_calls s_group_grown + 1
   \<and> map el_config (rows (snd (load_rows env0 [0] Direct s_group_grown)))
        = [[(''entity'', JStr ''light.a''), (''state_color'', Undefined)]]"
  using cached_rows_returned [where s="snd (load_rows env0 [0] Direct s_ab)" and e=env0
                               and sched="[]" and k=ViaToggle]
        cached_rows_returned [where s=s_group_loaded and e=env0 and sched="[]" and k=Direct
                               and xs="rows s_group_loaded"]
        cached_rows_returned [where s=s_ab and e=env0 and sched="[0]" and k=Direct
                               and its="[JStr ''light.a'']"]
        cached_rows_returned [where s=s_group_grown and e=env0 and sched="[0]" and k=Direct
                               and ms="[JStr ''light.a'']"]
        s_ab_loaded s_ab_facts source_facts reload_facts one_call
  by (simp add: js_or_def)

section \<open>C3: an explicitly empty list\<close>

text \<open>
  C3.  When \<^verbatim>\<open>entities\<close> is the empty list, or \<^verbatim>\<open>entities\<close> is absent and \<^verbatim>\<open>items\<close> is the empty
  list, the loader ends with an empty row list, calls the row factory not at all, registers no
  waiter for the context and is never left suspended, whatever the lower-priority sources hold;
  with a head in the configuration it is fulfilled and leaves the state as it is.
\<close>

theorem empty_list_is_a_source:
  assumes "rows s = []"
    and "entities (config s) = JArr [] \<or> (\<not> truthy (entities (config s)) \<and> items (config s) = JArr [])"
  shows "rows (snd (load_rows e sched k s)) = []
       \<and> factory_calls (snd (load_rows e sched k s)) = factory_calls s
       \<and> hassResolve (snd (load_rows e sched k s)) = hassResolve s
       \<and> fst (load_rows e sched k s) \<noteq> Suspended
       \<and> (\<not> nullish (head_descriptor (config s)) \<longrightarrow> load_rows e sched k s = (Fulfilled None, s))"
proof -
  have src: "js_or (entities (config s)) (items (config s)) = JArr []"
    using assms(2) by (auto simp: js_or_def)
  have same: "s\<lparr>rows := []\<rparr> = s" using assms(1) by (cases s) simp
  show ?thesis
  proof (cases "nullish (head_descriptor (config s))")
    case True
    then have "load_rows e sched k s = (Rejected TypeError, s)"
      using assms(1) by (simp add: load_rows_def Let_def)
    with assms(1) True show ?thesis by simp
  next
    case False
    have "load_rows e sched k s = create_rows e sched s []"
      by (rule load_rows_explicit [OF assms(1) False src])
    also have "\<dots> = (Fulfilled None, s)"
      by (simp add: create_rows_def run_calls_no_items same)
    finally show ?thesis using assms(1) by simp
  qed
qed

text \<open>Here \<^verbatim>\<open>items\<close> holds \<^verbatim>\<open>light.b\<close> and the group of the head holds \<^verbatim>\<open>light.c\<close>; neither
  becomes a row.\<close>

theorem empty_list_is_a_source_witness:
  "rows s_empty = [] \<and> entities (config s_empty) = JArr []
     \<and> items (config s_empty) = JArr [JStr ''light.b'']
     \<and> group_members env0 (hass s_empty) (JStr ''group.x'') = Inr (JArr [JStr ''light.c''])
     \<and> load_rows env0 [] Direct s_empty = (Fulfilled None, s_empty)"
  using empty_list_is_a_source [of s_empty env0 "[]" Direct] s_empty_facts
  by simp

section \<open>C4: the two configuration errors of the loader\<close>

text \<open>
  C4, as stated, fails for a configuration without a head: there line 104 reads a property of
  \<^verbatim>\<open>undefined\<close>, and the loader is rejected with a TypeError although no item source is
  defined.
\<close>

theorem headless_counterexample:
  "entities (config s_headless) = Undefined \<and> items (config s_headless) = Undefined
   \<and> entity (config s_headless) = Undefined \<and> head (config s_headless) = Undefined
   \<and> rows s_headless = []
   \<and> fst (load_rows env0 [] Direct s_headless) = Rejected TypeError
   \<and> fst (load_rows env0 [] Direct s_headless) \<noteq> Rejected (Error ''No entities specified.'')"
  by code_simp

text \<open>
  C4, amended.  Let the configuration have a head descriptor (neither undefined nor null).  If
  neither explicit list is given and the head names no entity, or the group members read from
  the context are undefined, the loader fails with "No entities specified.".  If the value
  of the selected source is defined but not an array, it fails with "Entities must be a
  list.".  A rejected loader has created no child row and has not called the row factory.
\<close>

theorem load_rows_errors:
  assumes "rows s = []" and "\<not> nullish (head_descriptor (config s))"
  shows "(js_or (entities (config s)) (items (config s)) = Undefined
            \<and> \<not> truthy (get_prop (head_descriptor (config s)) ''entity'')
          \<longrightarrow> load_rows e sched k s = (Rejected (Error ''No entities specified.''), s))
       \<and> (js_or (entities (config s)) (items (config s)) = Undefined
            \<and> truthy (get_prop (head_descriptor (config s)) ''entity'')
            \<and> group_members e (hass s) (get_prop (head_descriptor (config s)) ''entity'') = Inr Undefined
          \<longrightarrow> load_rows e sched k s
                = (Rejected (Error ''No entities specified.''), s\<lparr>hassResolve := None\<rparr>))
       \<and> (js_or (entities (config s)) (items (config s)) = v \<and> v \<noteq> Undefined \<and> \<not> isArray v
          \<longrightarrow> load_rows e sched k s = (Rejected (Error ''Entities must be a list.''), s))
       \<and> (js_or (entities (config s)) (items (config s)) = Undefined
            \<and> truthy (get_prop (head_descriptor (config s)) ''entity'')
            \<and> group_members e (hass s) (get_prop (head_descriptor (config s)) ''entity'') = Inr w
            \<and> w \<noteq> Undefined \<and> \<not> isArray w
          \<longrightarrow> load_rows e sched k s
                = (Rejected (Error ''Entities must be a list.''), s\<lparr>hassResolve := None\<rparr>))
       \<and> (fst (load_rows e sched k s) = Rejected err
          \<longrightarrow> rows (snd (load_rows e sched k s)) = []
              \<and> factory_calls (snd (load_rows e sched k s)) = factory_calls s)"
proof (intro conjI impI)
  assume "js_or (entities (config s)) (items (config s)) = Undefined
            \<and> \<not> truthy (get_prop (head_descriptor (config s)) ''entity'')"
  then show "load_rows e sched k s = (Rejected (Error ''No entities specified.''), s)"
    using load_rows_no_items [OF assms] by simp
next
  assume "js_or (entities (config s)) (items (config s)) = Undefined
            \<and> truthy (get_prop (head_descriptor (config s)) ''entity'')
            \<and> group_members e (hass s) (get_prop (head_descriptor (config s)) ''entity'') = Inr Undefined"
  then show "load_rows e sched k s
                = (Rejected (Error ''No entities specified.''), s\<lparr>hassResolve := None\<rparr>)"
    using load_rows_group [OF assms, where v=Undefined and e=e] by (simp add: finish_rows_def)
next
  assume "js_or (entities (config s)) (items (config s)) = v \<and> v \<noteq> Undefined \<and> \<not> isArray v"
  then show "load_rows e sched k s = (Rejected (Error ''Entities must be a list.''), s)"
    using load_rows_not_list [OF assms, of v] by simp
next
  assume "js_or (entities (config s)) (items (config s)) = Undefined
            \<and> truthy (get_prop (head_descriptor (config s)) ''entity'')
            \<and> group_members e (hass s) (get_prop (head_descriptor (config s)) ''entity'') = Inr w
            \<and> w \<noteq> Undefined \<and> \<not> isArray w"
  then show "load_rows e sched k s
                = (Rejected (Error ''Entities must be a list.''), s\<lparr>hassResolve := None\<rparr>)"
    using load_rows_group [OF assms, where v=w and e=e] by (auto simp: finish_rows_def)
next
  assume rej: "fst (load_rows e sched k s) = Rejected err"
  show "rows (snd (load_rows e sched k s)) = []"
    using load_rows_rejected [OF rej] assms(1) by simp
next
  assume rej: "fst (load_rows e sched k s) = Rejected err"
  show "factory_calls (snd (load_rows e sched k s)) = factory_calls s"
    using load_rows_rejected [OF rej] by simp
qed

theorem load_rows_errors_witness:
  "rows s_no_items = [] \<and> \<not> nullish (head_descriptor (config s_no_items))
   \<and> js_or (entities (config s_no_items)) (items (config s_no_items)) = Undefined
   \<and> load_rows env0 [] Direct s_no_items = (Rejected (Error ''No entities specified.''), s_no_items)
   \<and> rows s_not_list = [] \<and> \<not> nullish (head_descriptor (config s_not_list))
   \<and> js_or (entities (config s_not_list)) (items (config s_not_list)) = JStr ''light.a''
   \<and> load_rows env0 [] Direct s_not_list = (Rejected (Error ''Entities must be a list.''), s_not_list)
   \<and> group_members env0 (hass s_light) (JStr ''light.x'') = Inr Undefined
   \<and> fst (load_rows env0 [] Direct s_light) = Rejected (Error ''No entities specified.'')
   \<and> rows (snd (load_rows env0 [] Direct s_light)) = []
   \<and> factory_calls (snd (load_rows env0 [] Direct s_light)) = factory_calls s_light
   \<and> group_members env0 (hass s_group_str) (JStr ''group.x'') = Inr (JStr ''light.a'')
   \<and> fst (load_rows env0 [] Direct s_group_str) = Rejected (Error ''Entities must be a list.'')"
  using load_rows_errors [OF s_no_items_facts(1,2), where e=env0 and sched="[]" and k=Direct]
        load_rows_errors [OF s_no_items_facts(5,6), where e=env0 and sched="[]" and k=Direct
                           and v="JStr ''light.a''"]
        load_rows_errors [OF error_facts(1,2), where e=env0 and sched="[]" and k=Direct
                           and err="Error ''No entities specified.''"]
        load_rows_errors [OF error_facts(6,7), where e=env0 and sched="[]" and k=Direct
                           and w="JStr ''light.a''"]
        s_no_items_facts error_facts
  by simp

section \<open>C5: the source of the header\<close>

text \<open>
  C5, as stated, fails in its second half: line 61 takes \<^verbatim>\<open>entity || head\<close>, so an \<^verbatim>\<open>entity\<close>
  that is present but falsy, such as the empty string, gives way to \<^verbatim>\<open>head\<close>.
\<close>

theorem blank_entity_counterexample:
  "entity cfg_blank_entity = JStr [] \<and> entity cfg_blank_entity \<noteq> Undefined
   \<and> head cfg_blank_entity = section_head \<and> head cfg_blank_entity \<noteq> Undefined
   \<and> fst (setConfig env0 [] cfg_blank_entity fresh) = Fulfilled ()
   \<and> map_option el_config (head_row (snd (snd (setConfig env0 [] cfg_blank_entity fresh))))
        = Some [(''type'', JStr ''section''), (''label'', JStr ''Y''), (''state_color'', Undefined)]
   \<and> map_option el_config (head_row (snd (snd (setConfig env0 [] cfg_blank_entity fresh))))
        \<noteq> Some (row_config env0 (assign_defaults cfg_blank_entity) True
                    (ensureObject (entity cfg_blank_entity)))"
  by code_simp

text \<open>
  C5, amended.  With neither \<^verbatim>\<open>entity\<close> nor \<^verbatim>\<open>head\<close> in the configuration, \<^verbatim>\<open>setConfig\<close>
  returns, its head loader is rejected with "No fold head specified", and no header handle
  is created: the header field and the count of factory calls stay as they were.  A truthy
  \<^verbatim>\<open>entity\<close> is the source of the header whatever \<^verbatim>\<open>head\<close> holds; a falsy \<^verbatim>\<open>entity\<close> gives way
  to \<^verbatim>\<open>head\<close>.
\<close>

theorem head_source:
  "(entity cfg = Undefined \<and> head cfg = Undefined \<longrightarrow>
      fst (setConfig e sched cfg s) = Rejected (Error ''No fold head specified'')
      \<and> head_row (snd (snd (setConfig e sched cfg s))) = head_row s
      \<and> factory_calls (snd (snd (setConfig e sched cfg s))) = factory_calls s)
   \<and> (truthy (entity cfg) \<longrightarrow>
      fst (setConfig e sched cfg s) = Fulfilled ()
      \<and> map_option el_config (head_row (snd (snd (setConfig e sched cfg s))))
           = Some (row_config e (assign_defaults cfg) True (ensureObject (entity cfg))))
   \<and> (\<not> truthy (entity cfg) \<and> truthy (ensureObject (head cfg)) \<longrightarrow>
      fst (setConfig e sched cfg s) = Fulfilled ()
      \<and> map_option el_config (head_row (snd (snd (setConfig e sched cfg s))))
           = Some (row_config e (assign_defaults cfg) True (ensureObject (head cfg))))"
proof -
  let ?s1 = "configured cfg s"
  have hd: "head_descriptor (config ?s1) = head_descriptor cfg"
    by (simp add: configured_fields assign_defaults_fields)
  have present: "fst (setConfig e sched cfg s) = Fulfilled ()
      \<and> map_option el_config (head_row (snd (snd (setConfig e sched cfg s))))
           = Some (row_config e (assign_defaults cfg) True (head_descriptor cfg))"
    if "truthy (head_descriptor cfg)"
  proof -
    from that have t: "truthy (head_descriptor (config ?s1))" using hd by simp
    show ?thesis
      using load_head_fulfilled(1,2) [OF t, of e] hd
      by (simp add: setConfig_head_outcome setConfig_frame configured_fields)
  qed
  have absent: "fst (setConfig e sched cfg s) = Rejected (Error ''No fold head specified'')
      \<and> head_row (snd (snd (setConfig e sched cfg s))) = head_row s
      \<and> factory_calls (snd (snd (setConfig e sched cfg s))) = factory_calls s"
    if u: "entity cfg = Undefined" "head cfg = Undefined"
  proof -
    have n: "head_descriptor cfg = Undefined" using u by (simp add: js_or_def ensureObject_def)
    then have "\<not> truthy (head_descriptor (config ?s1))" using hd by simp
    then have lh: "load_head e ?s1 = (Rejected (Error ''No fold head specified''), ?s1)"
      by (rule load_head_rejected)
    let ?s3 = "?s1\<lparr>rows := []\<rparr>"
    have "nullish (head_descriptor (config ?s3))" using hd n by simp
    then have lr: "load_rows e sched Direct ?s3 = (Rejected TypeError, ?s3)"
      by (simp add: load_rows_def Let_def)
    show ?thesis
      by (simp add: setConfig_unfold Let_def lh lr configured_fields)
  qed
  have e1: "truthy (entity cfg) \<Longrightarrow> head_descriptor cfg = ensureObject (entity cfg)"
    by (simp add: js_or_def)
  have e1t: "truthy (entity cfg) \<Longrightarrow> truthy (ensureObject (entity cfg))"
    by (cases "entity cfg") (simp_all add: ensureObject_def)
  have e2: "\<not> truthy (entity cfg) \<Longrightarrow> head_descriptor cfg = ensureObject (head cfg)"
    by (simp add: js_or_def)
  show ?thesis
    using present absent e1 e1t e2 by metis
qed

theorem head_source_witness:
  "entity (config fresh) = Undefined \<and> head (config fresh) = Undefined
   \<and> fst (setConfig env0 [] (config fresh) fresh) = Rejected (Error ''No fold head specified'')
   \<and> head_row (snd (snd (setConfig env0 [] (config fresh) fresh))) = None
   \<and> truthy (entity cfg_both) \<and> head cfg_both = section_head
   \<and> fst (setConfig env0 [] cfg_both fresh) = Fulfilled ()
   \<and> map_option el_config (head_row (snd (snd (setConfig env0 [] cfg_both fresh))))
        = Some [(''entity'', JStr ''light.x''), (''state_color'', Undefined)]
   \<and> \<not> truthy (entity cfg_blank_entity) \<and> truthy (ensureObject (head cfg_blank_entity))
   \<and> map_option el_config (head_row (snd (snd (setConfig env0 [] cfg_blank_entity fresh))))
        = Some [(''type'', JStr ''section''), (''label'', JStr ''Y''), (''state_color'', Undefined)]"
proof -
  have f: "entity (config fresh) = Undefined" "head (config fresh) = Undefined"
    "head_row fresh = None" "truthy (entity cfg_both)" "head cfg_both = section_head"
    "row_config env0 (assign_defaults cfg_both) True (ensureObject (entity cfg_both))
       = [(''entity'', JStr ''light.x''), (''state_color'', Undefined)]"
    "\<not> truthy (entity cfg_blank_entity)" "truthy (ensureObject (head cfg_blank_entity))"
    "row_config env0 (assign_defaults cfg_blank_entity) True (ensureObject (head cfg_blank_entity))
       = [(''type'', JStr ''section''), (''label'', JStr ''Y''), (''state_color'', Undefined)]"
    by code_simp+
  show ?thesis
    using head_source [of "config fresh" env0 "[]" fresh]
          head_source [of cfg_both env0 "[]" fresh]
          head_source [of cfg_blank_entity env0 "[]" fresh] f
    by simp
qed

section \<open>C6: the default of \<^verbatim>\<open>clickable\<close>\<close>

text \<open>
  C6.  When \<^verbatim>\<open>clickable\<close> is unset in the configuration given to \<^verbatim>\<open>setConfig\<close>, the resolved
  configuration is clickable exactly when there is a head descriptor and it has neither an
  \<^verbatim>\<open>entity\<close> nor a \<^verbatim>\<open>tap_action\<close>; otherwise the field stays unset, which every read of it
  takes as false.  So the head \<^verbatim>\<open>{entity: light.x}\<close> is not clickable and the head
  \<^verbatim>\<open>{type: section, label: Y}\<close> is.  A value of \<^verbatim>\<open>clickable\<close> that the configuration sets is
  kept.
\<close>

theorem auto_clickable:
  "(clickable cfg = None \<longrightarrow>
      is_clickable (config (snd (snd (setConfig e sched cfg s))))
        = (truthy (head_descriptor cfg)
           \<and> get_prop (head_descriptor cfg) ''entity'' = Undefined
           \<and> get_prop (head_descriptor cfg) ''tap_action'' = Undefined)
      \<and> (\<not> is_clickable (config (snd (snd (setConfig e sched cfg s))))
           \<longrightarrow> clickable (config (snd (snd (setConfig e sched cfg s)))) = None))
   \<and> (clickable cfg = None \<and> head_descriptor cfg = JObj [(''entity'', JStr ''light.x'')]
        \<longrightarrow> \<not> is_clickable (config (snd (snd (setConfig e sched cfg s)))))
   \<and> (clickable cfg = None
        \<and> head_descriptor cfg = JObj [(''type'', JStr ''section''), (''label'', JStr ''Y'')]
        \<longrightarrow> is_clickable (config (snd (snd (setConfig e sched cfg s)))))
   \<and> (clickable cfg \<noteq> None
        \<longrightarrow> clickable (config (snd (snd (setConfig e sched cfg s)))) = clickable cfg)"
proof -
  let ?s1 = "configured cfg s"
  have hd: "head_descriptor (config ?s1) = head_descriptor cfg"
    by (simp add: configured_fields assign_defaults_fields)
  have cl: "clickable (config ?s1) = clickable cfg"
    by (simp add: configured_fields assign_defaults_fields)
  have cfg': "config (snd (snd (setConfig e sched cfg s))) = config (snd (load_head e ?s1))"
    by (rule setConfig_frame)
  show ?thesis
  proof (cases "truthy (head_descriptor cfg)")
    case True
    then have t: "truthy (head_descriptor (config ?s1))" using hd by simp
    have "config (snd (snd (setConfig e sched cfg s)))
            = (if clickable cfg = None
                  \<and> get_prop (head_descriptor cfg) ''entity'' = Undefined
                  \<and> get_prop (head_descriptor cfg) ''tap_action'' = Undefined
               then (assign_defaults cfg)\<lparr>clickable := Some True\<rparr> else assign_defaults cfg)"
      using load_head_fulfilled(5) [OF t, of e] hd cl cfg'
      by (simp add: configured_fields)
    moreover have "get_prop (JObj [(''entity'', JStr ''light.x'')]) ''entity'' \<noteq> Undefined"
      by (simp add: get_prop_def)
    moreover have "get_prop (JObj [(''type'', JStr ''section''), (''label'', JStr ''Y'')]) ''entity'' = Undefined"
      "get_prop (JObj [(''type'', JStr ''section''), (''label'', JStr ''Y'')]) ''tap_action'' = Undefined"
      by (simp_all add: get_prop_def)
    ultimately show ?thesis
      using True by (auto simp: is_clickable_def assign_defaults_fields)
  next
    case False
    then have "\<not> truthy (head_descriptor (config ?s1))" using hd by simp
    then have "load_head e ?s1 = (Rejected (Error ''No fold head specified''), ?s1)"
      by (rule load_head_rejected)
    then have "config (snd (snd (setConfig e sched cfg s))) = assign_defaults cfg"
      using cfg' by (simp add: configured_fields)
    moreover have "truthy (JObj [(''entity'', JStr ''light.x'')])"
      "truthy (JObj [(''type'', JStr ''section''), (''label'', JStr ''Y'')])"
      by simp_all
    ultimately show ?thesis
      using False by (auto simp: is_clickable_def assign_defaults_fields)
  qed
qed

theorem auto_clickable_witness:
  "clickable cfg_light = None \<and> head_descriptor cfg_light = JObj [(''entity'', JStr ''light.x'')]
   \<and> \<not> is_clickable (config (snd (snd (setConfig env0 [] cfg_light fresh))))
   \<and> clickable (config (snd (snd (setConfig env0 [] cfg_light fresh)))) = None
   \<and> clickable cfg_no_items = None
   \<and> head_descriptor cfg_no_items = JObj [(''type'', JStr ''section''), (''label'', JStr ''Y'')]
   \<and> is_clickable (config (snd (snd (setConfig env0 [] cfg_no_items fresh))))
   \<and> clickable cfg_explicit = Some False
   \<and> clickable (config (snd (snd (setConfig env0 [] cfg_explicit fresh)))) = Some False"
  using auto_clickable [of cfg_light env0 "[]" fresh]
        auto_clickable [of cfg_no_items env0 "[]" fresh]
        auto_clickable [of cfg_explicit env0 "[]" fresh]
        cfg_facts
  by (simp add: get_prop_def)

section \<open>C7: order of the child rows\<close>

text \<open>
  C7.  Whatever the order in which the concurrent row creations complete, as long as each of
  them does, the row list that \<^verbatim>\<open>Promise.all\<close> yields holds at index \<open>i\<close> the handle made
  from item \<open>i\<close>, and it is as long as the item list.
\<close>

theorem order_preserved:
  "completes sched (length its) \<Longrightarrow>
     fst (create_rows e sched s its) = Fulfilled None \<and>
     map el_config (rows (snd (create_rows e sched s its))) = map (child_config e (config s)) its \<and>
     length (rows (snd (create_rows e sched s its))) = length its"
proof -
  assume c: "completes sched (length its)"
  then have all: "\<forall>i<length its. i \<in> set sched" by (simp add: completes_iff)
  note r = create_rows_complete(1,2) [OF all, of e s]
  from r(2) have "length (map el_config (rows (snd (create_rows e sched s its)))) = length its"
    by simp
  then have "length (rows (snd (create_rows e sched s its))) = length its" by simp
  with r show ?thesis by simp
qed

text \<open>The example of the claim: \<^verbatim>\<open>z\<close> completes first, then \<^verbatim>\<open>x\<close>, then \<^verbatim>\<open>y\<close>.  The
  identities of the handles show the order of creation; the list is in item order.\<close>

theorem order_preserved_witness:
  "completes [2, 0, 1] (length [JStr ''light.x'', JStr ''light.y'', JStr ''light.z''])
   \<and> fst (load_rows env0 [2, 0, 1] Direct s_xyz) = Fulfilled None
   \<and> map el_config (rows (snd (load_rows env0 [2, 0, 1] Direct s_xyz)))
       = [[(''entity'', JStr ''light.x''), (''state_color'', Undefined)],
          [(''entity'', JStr ''light.y''), (''state_color'', Undefined)],
          [(''entity'', JStr ''light.z''), (''state_color'', Undefined)]]
   \<and> map el_id (rows (snd (load_rows env0 [2, 0, 1] Direct s_xyz))) = [2, 3, 1]"
proof -
  have c: "completes [2, 0, 1] (length [JStr ''light.x'', JStr ''light.y'', JStr ''light.z''])"
    by code_simp
  from order_preserved [OF c, of env0 s_xyz] c s_xyz_facts show ?thesis
    by simp
qed

section \<open>C8: \<^verbatim>\<open>toggle\<close>\<close>




section \<open>C9: propagation of the context\<close>




section \<open>C10: a repeated \<^verbatim>\<open>setConfig\<close>\<close>

text \<open>
  C10.  \<^verbatim>\<open>setConfig\<close> keeps an \<^verbatim>\<open>open\<close> state that is already set and takes the \<^verbatim>\<open>open\<close> field
  of the new configuration only when it is not.  Whether the child rows are loaded at once
  depends on the \<^verbatim>\<open>open\<close> field of the new configuration alone; without it the row list is
  left empty, no waiter is registered and at most the header is created.  So an open component
  reconfigured with \<^verbatim>\<open>open: false\<close> stays open, with an empty row list and no load.
\<close>

theorem reconfigure_keeps_open:
  "(open_state s = Some b \<longrightarrow>
      open_state (snd (snd (setConfig e sched cfg s))) = Some b
      \<and> showContent (snd (snd (setConfig e sched cfg s))) = Some b)
   \<and> (open_state s = None \<longrightarrow>
      open_state (snd (snd (setConfig e sched cfg s))) = Some (cfg_open cfg = Some True))
   \<and> ((fst (snd (setConfig e sched cfg s)) = None) = (cfg_open cfg \<noteq> Some True))
   \<and> (cfg_open cfg \<noteq> Some True \<longrightarrow>
      rows (snd (snd (setConfig e sched cfg s))) = []
      \<and> hassResolve (snd (snd (setConfig e sched cfg s))) = hassResolve s
      \<and> factory_calls (snd (snd (setConfig e sched cfg s))) \<le> Suc (factory_calls s))
   \<and> (open_state s = Some True \<and> cfg_open cfg = Some False \<longrightarrow>
      open_state (snd (snd (setConfig e sched cfg s))) = Some True
      \<and> rows (snd (snd (setConfig e sched cfg s))) = []
      \<and> fst (snd (setConfig e sched cfg s)) = None)"
proof -
  have a: "open_state (snd (snd (setConfig e sched cfg s)))
      = Some (case open_state s of Some b \<Rightarrow> b | None \<Rightarrow> cfg_open cfg = Some True)"
    "showContent (snd (snd (setConfig e sched cfg s)))
      = Some (case open_state s of Some b \<Rightarrow> b | None \<Rightarrow> cfg_open cfg = Some True)"
    by (simp_all add: setConfig_frame configured_fields)
  have b: "(fst (snd (setConfig e sched cfg s)) = None) = (cfg_open cfg \<noteq> Some True)"
    by (simp add: setConfig_unfold Let_def)
  have c: "rows (snd (snd (setConfig e sched cfg s))) = []
      \<and> hassResolve (snd (snd (setConfig e sched cfg s))) = hassResolve s
      \<and> factory_calls (snd (snd (setConfig e sched cfg s))) \<le> Suc (factory_calls s)"
    if "cfg_open cfg \<noteq> Some True"
    using that load_head_calls [of e "configured cfg s"]
    by (simp add: setConfig_state load_head_frame configured_fields)
  show ?thesis
    using a b c by simp
qed

theorem reconfigure_keeps_open_witness:
  "open_state s_open = Some True \<and> rows s_open \<noteq> []
   \<and> cfg_open (cfg_ab\<lparr> cfg_open := Some False \<rparr>) = Some False
   \<and> open_state (snd (snd (setConfig env0 [] (cfg_ab\<lparr> cfg_open := Some False \<rparr>) s_open))) = Some True
   \<and> rows (snd (snd (setConfig env0 [] (cfg_ab\<lparr> cfg_open := Some False \<rparr>) s_open))) = []
   \<and> fst (snd (setConfig env0 [] (cfg_ab\<lparr> cfg_open := Some False \<rparr>) s_open)) = None
   \<and> open_state fresh = None \<and> cfg_open cfg_ab = None
   \<and> open_state (snd (snd (setConfig env0 [] cfg_ab fresh))) = Some False"
  using reconfigure_keeps_open [of s_open True env0 "[]" "cfg_ab\<lparr> cfg_open := Some False \<rparr>"]
        reconfigure_keeps_open [of fresh True env0 "[]" cfg_ab]
        s_open_facts fresh_facts
  by simp

end
